theory Spec2Isabelle
  imports Complex_Main "HOL-Library.Log_Nat"
begin

section \<open>Array values\<close>

text \<open>
  The front end in \<^verbatim>\<open>pyart/correct/dealias.py\<close> only compares gate values
  (\<^verbatim>\<open>==\<close>, \<^verbatim>\<open>np.isnan\<close>) and moves them around; it does no arithmetic on
  them. A gate value is therefore an IEEE value seen from outside: a finite number, one
  of the two infinities, or NaN. A finite value is a rational number; the values of
  a float64 array are among them.
\<close>

datatype float = Finite rat | PosInf | NegInf | NaN

fun isnan :: "float \<Rightarrow> bool" where
  "isnan NaN = True"
| "isnan _ = False"

fun isfinite :: "float \<Rightarrow> bool" where
  "isfinite (Finite _) = True"
| "isfinite _ = False"

text \<open>IEEE comparison \<^verbatim>\<open>x == y\<close>: NaN is equal to nothing, itself included.\<close>

definition float_eq :: "float \<Rightarrow> float \<Rightarrow> bool" where
  "float_eq x y = (\<not> isnan x \<and> \<not> isnan y \<and> x = y)"

subsection \<open>Rounding to float32\<close>

text \<open>
  The conversion of a value to IEEE 754 binary32, as \<^verbatim>\<open>astype(np.float32)\<close>
  does it: round to nearest, ties to even, with 24 significant bits, subnormal numbers
  below \<open>2\<^sup>-\<^sup>1\<^sup>2\<^sup>6\<close>, and overflow to infinity when the rounded magnitude reaches
  \<open>2\<^sup>1\<^sup>2\<^sup>8\<close>. The sign of zero is not modelled.
\<close>

definition pow2 :: "int \<Rightarrow> rat" where
  "pow2 k = (if 0 \<le> k then 2 ^ nat k else 1 / 2 ^ nat (- k))"

definition round_half_even :: "rat \<Rightarrow> int" where
  "round_half_even x =
     (let f = \<lfloor>x\<rfloor>; d = x - of_int f
      in if d < 1 / 2 then f else if 1 / 2 < d then f + 1 else if even f then f else f + 1)"

text \<open>The binary exponent of a positive number: \<open>2\<^sup>e \<le> a < 2\<^sup>e\<^sup>+\<^sup>1\<close>.\<close>

definition exponent :: "rat \<Rightarrow> int" where
  "exponent a =
     (if 1 \<le> a then int (floorlog 2 (nat \<lfloor>a\<rfloor>)) - 1
      else - int (floorlog 2 (nat (\<lceil>1 / a\<rceil> - 1))))"

definition round_float32 :: "rat \<Rightarrow> rat" where
  "round_float32 a =
     (let u = pow2 (max (exponent a) (- 126) - 23)
      in of_int (round_half_even (a / u)) * u)"

fun float32 :: "float \<Rightarrow> float" where
  "float32 (Finite q) =
     (if q = 0 then Finite 0
      else let r = round_float32 \<bar>q\<bar>
           in if pow2 128 \<le> r then (if 0 < q then PosInf else NegInf)
              else Finite (if 0 < q then r else - r))"
| "float32 PosInf = PosInf"
| "float32 NegInf = NegInf"
| "float32 NaN = NaN"

subsection \<open>Arrays\<close>

text \<open>
  A two-dimensional array (rays by gates) is a list of rows. A field's \<^verbatim>\<open>'data'\<close>
  entry is a plain \<^verbatim>\<open>ndarray\<close> or a \<^verbatim>\<open>numpy.ma.MaskedArray\<close>, which has a
  data buffer, a mask of the same shape (True marks a masked gate) and a fill value.
\<close>

datatype array =
    NdArray "float list list"
  | MaskedArray "float list list" "bool list list" float

fun buffer :: "array \<Rightarrow> float list list" where
  "buffer (NdArray d) = d"
| "buffer (MaskedArray d m fv) = d"

datatype error =
    MissingOptionalDependency string
  | ValueError string
  | KeyError string
  | IndexError string
  | ShapeMismatch
  | ConfigurationError

subsection \<open>The object store\<close>

text \<open>
  Arrays are mutable objects: \<^verbatim>\<open>fdata[is_bad] = rsl_badval\<close> writes into the array
  that \<^verbatim>\<open>fdata\<close> refers to. The store is the list of all array objects, an address
  is an index into it, and a new object is appended at the end.
\<close>

type_synonym addr = nat
type_synonym store = "array list"

definition alloc :: "array \<Rightarrow> store \<Rightarrow> addr \<times> store" where
  "alloc a s = (length s, s @ [a])"

subsection \<open>The numpy operations used by the front end\<close>

text \<open>
  \<^verbatim>\<open>np.copy(a)\<close> is \<^verbatim>\<open>np.array(a, copy=True)\<close> with \<^verbatim>\<open>subok=False\<close>: the
  result is a new base-class \<^verbatim>\<open>ndarray\<close> holding a copy of the data buffer. The mask
  of a masked array is not part of the result.
\<close>

definition np_copy :: "addr \<Rightarrow> store \<Rightarrow> addr \<times> store" where
  "np_copy a s = alloc (NdArray (buffer (s ! a))) s"

text \<open>
  \<^verbatim>\<open>a.astype(np.float32)\<close> returns a new array of the same class whose values are
  the values of \<^verbatim>\<open>a\<close> rounded to float32.
\<close>

definition astype_float32 :: "addr \<Rightarrow> store \<Rightarrow> addr \<times> store" where
  "astype_float32 a s =
     alloc (case s ! a of
              NdArray d \<Rightarrow> NdArray (map (map float32) d)
            | MaskedArray d m fv \<Rightarrow> MaskedArray (map (map float32) d) m fv) s"

text \<open>
  \<^verbatim>\<open>np.ma.filled(a, fill_value)\<close>: a masked array gives a new \<^verbatim>\<open>ndarray\<close> with
  the masked gates replaced by \<^verbatim>\<open>fill_value\<close>; an \<^verbatim>\<open>ndarray\<close> is returned as
  it is (the same object).
\<close>

definition fill_masked :: "float list list \<Rightarrow> bool list list \<Rightarrow> float \<Rightarrow> float list list" where
  "fill_masked d m v = map2 (map2 (\<lambda>x b. if b then v else x)) d m"

definition np_ma_filled :: "addr \<Rightarrow> float \<Rightarrow> store \<Rightarrow> addr \<times> store" where
  "np_ma_filled a v s =
     (case s ! a of
        NdArray d \<Rightarrow> (a, s)
      | MaskedArray d m fv \<Rightarrow> alloc (NdArray (fill_masked d m v)) s)"

text \<open>
  \<^verbatim>\<open>a[b] = v\<close> with a boolean index array \<^verbatim>\<open>b\<close>: the shapes must agree
  (IndexError otherwise), and the gates where \<^verbatim>\<open>b\<close> is True are overwritten in
  place. Writing into a masked array also clears the mask of the written gates.
\<close>

definition put_mask :: "float list list \<Rightarrow> bool list list \<Rightarrow> float \<Rightarrow> float list list" where
  "put_mask d b v = map2 (map2 (\<lambda>x m. if m then v else x)) d b"

definition same_shape :: "'a list list \<Rightarrow> 'b list list \<Rightarrow> bool" where
  "same_shape d b = (map length d = map length b)"

definition setitem_bool :: "addr \<Rightarrow> bool list list \<Rightarrow> float \<Rightarrow> store \<Rightarrow> error + store" where
  "setitem_bool a b v s =
     (if \<not> same_shape (buffer (s ! a)) b
      then Inl (IndexError ''boolean index did not match indexed array'')
      else Inr (s[a := (case s ! a of
                          NdArray d \<Rightarrow> NdArray (put_mask d b v)
                        | MaskedArray d m fv \<Rightarrow>
                            MaskedArray (put_mask d b v)
                              (map2 (map2 (\<lambda>k c. k \<and> \<not> c)) m b) fv)]))"

text \<open>
  Elementwise arithmetic on two one-dimensional integer arrays, with numpy's
  broadcasting of a length-one operand.
\<close>

definition np_binop :: "(int \<Rightarrow> int \<Rightarrow> int) \<Rightarrow> int list \<Rightarrow> int list \<Rightarrow> error + int list" where
  "np_binop f xs ys =
     (if length xs = length ys then Inr (map2 f xs ys)
      else if length xs = 1 then Inr (map (f (hd xs)) ys)
      else if length ys = 1 then Inr (map (\<lambda>x. f x (hd ys)) xs)
      else Inl (ValueError ''operands could not be broadcast together''))"

text \<open>\<^verbatim>\<open>astype(np.int32)\<close> keeps the low 32 bits, read as a signed number.\<close>

definition astype_int32 :: "int \<Rightarrow> int" where
  "astype_int32 x = signed_take_bit 31 x"

section \<open>The radar and the RSL volume\<close>

text \<open>
  Of the Radar object the front end reads the field dictionaries (here: the address of
  each field's \<^verbatim>\<open>'data'\<close> array) and the two sweep index arrays.
\<close>

record radar =
  radar_fields :: "string \<rightharpoonup> addr"
  sweep_start_ray_index :: "int list"
  sweep_end_ray_index :: "int list"

text \<open>
  \<^verbatim>\<open>radar.fields[field_name]['data']\<close>: KeyError when the field, or its data
  entry, does not exist.
\<close>

definition field_data :: "radar \<Rightarrow> string \<Rightarrow> store \<Rightarrow> error + addr" where
  "field_data r field_name s =
     (case radar_fields r field_name of
        None \<Rightarrow> Inl (KeyError field_name)
      | Some a \<Rightarrow> if a < length s then Inr a else Inl (KeyError ''data''))"

record volume =
  sweeps :: "float list list list"
  volume_number :: int
  geometry :: "(int list \<times> int list) option"

text \<open>All rays of a volume, in order, each with its gates.\<close>

definition rays :: "volume \<Rightarrow> float list list" where
  "rays v = concat (sweeps v)"

fun split_sweeps :: "nat list \<Rightarrow> 'a list \<Rightarrow> 'a list list" where
  "split_sweeps [] xs = []"
| "split_sweeps (n # ns) xs = take n xs # split_sweeps ns (drop n xs)"

text \<open>
  Modelled from the spec: \<^verbatim>\<open>_rsl_interface.create_volume\<close> is compiled code of the
  repository that is not among the sources. The specification of the volume builder
  gives its contract: the volume is the sequence of per-sweep two-dimensional arrays of
  shape (rays in sweep, gates), cut from the rays of the field in order, and the
  construction fails with ShapeMismatch if the declared rays per sweep do not sum to the
  total ray count.
\<close>

definition create_volume :: "float list list \<Rightarrow> int list \<Rightarrow> int \<Rightarrow> error + volume" where
  "create_volume arr rays_per_sweep vol_num =
     (if sum_list rays_per_sweep \<noteq> int (length arr) then Inl ShapeMismatch
      else Inr \<lparr>sweeps = split_sweeps (map nat rays_per_sweep) arr,
                volume_number = vol_num, geometry = None\<rparr>)"

text \<open>
  Modelled from the spec: \<^verbatim>\<open>_rsl_interface._label_volume\<close> is not among the sources
  either. It attaches the sweep geometry of the radar to the volume; the gate values are
  left as they are and the radar is only read.
\<close>

definition label_volume :: "volume \<Rightarrow> radar \<Rightarrow> volume" where
  "label_volume v r = v\<lparr>geometry := Some (sweep_start_ray_index r, sweep_end_ray_index r)\<rparr>"

text \<open>
  \<^verbatim>\<open>rays_per_sweep = (sweep_end_ray_index - sweep_start_ray_index + 1).astype(np.int32)\<close>
\<close>

definition rays_per_sweep :: "radar \<Rightarrow> error + int list" where
  "rays_per_sweep r =
     (case np_binop (\<lambda>e b. e - b) (sweep_end_ray_index r) (sweep_start_ray_index r) of
        Inl e \<Rightarrow> Inl e
      | Inr d \<Rightarrow> Inr (map (\<lambda>x. astype_int32 (x + 1)) d))"

text \<open>
  \<^verbatim>\<open>np.logical_or(fdata == fill_value, np.isnan(fdata))\<close>, for one gate and the
  value that the gate is compared with.
\<close>

definition is_bad_gate :: "float \<Rightarrow> float \<Rightarrow> bool" where
  "is_bad_gate fill_value x = (float_eq x fill_value \<or> isnan x)"

text \<open>
  Lines 273 to 278: the rays per sweep, the volume and its labels. The store is only
  read.
\<close>

definition build_volume :: "radar \<Rightarrow> int \<Rightarrow> addr \<Rightarrow> store \<Rightarrow> (error + volume) \<times> store" where
  "build_volume r vol_num fdata s =
     (case rays_per_sweep r of
        Inl e \<Rightarrow> (Inl e, s)
      | Inr rps \<Rightarrow>
          (case create_volume (buffer (s ! fdata)) rps vol_num of
             Inl e \<Rightarrow> (Inl e, s)
           | Inr v \<Rightarrow> (Inr (label_volume v r), s)))"

text \<open>
  \<^verbatim>\<open>_create_rsl_volume(radar, field_name, vol_num, rsl_badval, excluded=None)\<close>,
  lines 262 to 278. The fill value of the configuration (\<^verbatim>\<open>get_fillvalue()\<close>)
  is the first argument. The result comes with the store after the call, also when the
  call raises. \<^verbatim>\<open>fdata\<close> is a float32 array: in \<^verbatim>\<open>fdata == fill_value\<close> the
  Python float \<^verbatim>\<open>fill_value\<close> is converted to float32, and the assignments write
  \<^verbatim>\<open>rsl_badval\<close> converted to float32.
\<close>

definition create_rsl_volume ::
  "float \<Rightarrow> radar \<Rightarrow> string \<Rightarrow> int \<Rightarrow> float \<Rightarrow> bool list list option \<Rightarrow> store
     \<Rightarrow> (error + volume) \<times> store" where
  "create_rsl_volume fill_value r field_name vol_num rsl_badval excluded s =
     (case field_data r field_name s of
        Inl e \<Rightarrow> (Inl e, s)
      | Inr a \<Rightarrow>
          (let (c, s1) = np_copy a s;
               (f, s2) = astype_float32 c s1;
               (fdata, s3) = np_ma_filled f fill_value s2;
               is_bad = map (map (is_bad_gate (float32 fill_value))) (buffer (s3 ! fdata))
           in (case setitem_bool fdata is_bad (float32 rsl_badval) s3 of
                 Inl e \<Rightarrow> (Inl e, s3)
               | Inr s4 \<Rightarrow>
                   (case excluded of
                      None \<Rightarrow> build_volume r vol_num fdata s4
                    | Some ex \<Rightarrow>
                        (case setitem_bool fdata ex (float32 rsl_badval) s4 of
                           Inl e \<Rightarrow> (Inl e, s4)
                         | Inr s5 \<Rightarrow> build_volume r vol_num fdata s5)))))"

section \<open>The dealiasing front end\<close>

text \<open>
  Keyword arguments (\<^verbatim>\<open>**kwargs\<close>) are a dictionary from names to numbers; the
  \<^verbatim>\<open>gatefilter\<close> argument is None, False or a GateFilter instance, of which the
  front end reads the \<^verbatim>\<open>gate_excluded\<close> array.
\<close>

datatype pyval = PyInt int | PyFloat float

type_synonym kwargs = "string \<rightharpoonup> pyval"

datatype gatefilter = GateFilterNone | GateFilterFalse | GateFilter "bool list list"

text \<open>
  What the module takes from its surroundings: whether the import of the compiled
  interfaces succeeded (\<^verbatim>\<open>_FOURDD_AVAILABLE\<close>), the configuration
  (\<^verbatim>\<open>get_fillvalue\<close>, \<^verbatim>\<open>get_field_name\<close>, \<^verbatim>\<open>get_metadata\<close>), and the
  collaborators that are not among the sources and are parameters of the call:
  \<^verbatim>\<open>_parse_gatefilter\<close> (its result's \<^verbatim>\<open>gate_excluded\<close>),
  \<^verbatim>\<open>_fourdd_interface.create_soundvolume\<close> (a success flag and a volume) and the
  unfolding passes of the 4DD engine (a flag and the unfolded volume).
\<close>

record env =
  FOURDD_AVAILABLE :: bool
  get_fillvalue :: float
  get_field_name :: "string \<Rightarrow> string"
  get_metadata :: "string \<Rightarrow> (string \<rightharpoonup> string)"
  parse_gatefilter :: "gatefilter \<Rightarrow> radar \<Rightarrow> store \<Rightarrow> kwargs \<Rightarrow> error + bool list list"
  create_soundvolume ::
    "volume \<Rightarrow> float list \<Rightarrow> float list \<Rightarrow> float list \<Rightarrow> int \<Rightarrow> float \<Rightarrow> int \<times> volume option"
  unfold_volume ::
    "volume \<Rightarrow> volume option \<Rightarrow> volume option \<Rightarrow> int \<Rightarrow> kwargs \<Rightarrow> int \<times> volume"

record args =
  radar :: radar
  last_radar :: "radar option"
  sounding_heights :: "float list option"
  sounding_wind_speeds :: "float list option"
  sounding_wind_direction :: "float list option"
  gatefilter :: gatefilter
  filt :: int
  rsl_badval :: float
  keep_original :: bool
  vel_field :: "string option"
  corr_vel_field :: "string option"
  last_vel_field :: "string option"
  debug :: bool
  max_shear :: float
  sign :: int
  kwargs :: kwargs

text \<open>
  What \<^verbatim>\<open>fourdd_dealias\<close> returns: \<^verbatim>\<open>(flag, data)\<close>, or with
  \<^verbatim>\<open>debug=True\<close> the tuple \<^verbatim>\<open>(usuccess, radialVelVolume, lastVelVolume,
  unfoldedVolume, sondVolume)\<close>.
\<close>

datatype dealias_output =
    Unfolded int "float list list"
  | DebugVolumes int volume "volume option" volume "volume option"

text \<open>
  Modelled from the spec: \<^verbatim>\<open>_fourdd_interface.fourdd_dealias\<close> is compiled code of
  the repository that is not among the sources. The specification of the unfolding
  engine gives its failure contract: the whole call fails only on structural errors,
  which are a comparison volume whose sweep and ray geometry differs from the primary
  volume's, and a parameter outside its documented range (\<^verbatim>\<open>ba_mincount\<close> in 1 to 8,
  \<^verbatim>\<open>ba_edgecount\<close> in 1 to 5; an omitted parameter has its default, which is in
  range). Per-gate ambiguity is data. The unfolding passes themselves are the parameter
  \<^const>\<open>unfold_volume\<close>.
\<close>

definition param_in_range :: "kwargs \<Rightarrow> string \<Rightarrow> int \<Rightarrow> int \<Rightarrow> bool" where
  "param_in_range kw name lo hi =
     (case kw name of
        None \<Rightarrow> True
      | Some (PyInt n) \<Rightarrow> lo \<le> n \<and> n \<le> hi
      | Some (PyFloat x) \<Rightarrow> False)"

definition congruent :: "volume \<Rightarrow> volume option \<Rightarrow> bool" where
  "congruent v w =
     (case w of None \<Rightarrow> True | Some u \<Rightarrow> map (map length) (sweeps u) = map (map length) (sweeps v))"

definition fourdd_dealias ::
  "env \<Rightarrow> volume \<Rightarrow> volume option \<Rightarrow> volume option \<Rightarrow> int \<Rightarrow> bool \<Rightarrow> kwargs
     \<Rightarrow> error + dealias_output" where
  "fourdd_dealias env vel_volume last_vel_volume sound_volume flt dbg kw =
     (if \<not> (param_in_range kw ''ba_mincount'' 1 8 \<and> param_in_range kw ''ba_edgecount'' 1 5)
      then Inl ConfigurationError
      else if \<not> (congruent vel_volume last_vel_volume \<and> congruent vel_volume sound_volume)
      then Inl ConfigurationError
      else (case unfold_volume env vel_volume last_vel_volume sound_volume flt kw of
              (flag, unfolded) \<Rightarrow>
                Inr (if dbg
                     then DebugVolumes flag vel_volume last_vel_volume unfolded sound_volume
                     else Unfolded flag (rays unfolded))))"

text \<open>
  Modelled from the spec: \<^verbatim>\<open>_fourdd_interface.create_soundvolume\<close> is compiled
  code of the repository that is not among the sources. The specification of the
  sounding volume synthesizer gives its return contract: the volume is congruent to the
  reference volume; a gate for which the profile yields a radial velocity holds it;
  partial coverage is allowed, and a gate that the profile does not cover receives the
  sentinel; a None volume with success false is returned only on fatal numeric failure,
  when the profile yields a usable value for no gate at all. The gate's height, the
  interpolation of the profile, the projection, the sign and the shear gating are the
  geometry collaborator: the parameter \<open>g\<close>, which for a profile, a sign and a maximal
  shear gives the radial velocity of gate \<open>k\<close> of ray \<open>j\<close> of sweep \<open>i\<close>, if
  there is one. The sentinel of the volume is a parameter as well.
\<close>

definition sounding_gates ::
  "(nat \<Rightarrow> nat \<Rightarrow> nat \<Rightarrow> float option) \<Rightarrow> volume \<Rightarrow> float option list list list" where
  "sounding_gates g ref =
     map (\<lambda>(i, sw). map (\<lambda>(j, ray). map (\<lambda>(k, x). g i j k) (enumerate 0 ray))
                         (enumerate 0 sw))
       (enumerate 0 (sweeps ref))"

definition uncovered :: "float option list list list \<Rightarrow> bool" where
  "uncovered vals = list_all (list_all (list_all (\<lambda>x. x = None))) vals"

definition create_soundvolume_model ::
  "(float list \<Rightarrow> float list \<Rightarrow> float list \<Rightarrow> int \<Rightarrow> float \<Rightarrow> nat \<Rightarrow> nat \<Rightarrow> nat \<Rightarrow> float option)
     \<Rightarrow> float \<Rightarrow> volume \<Rightarrow> float list \<Rightarrow> float list \<Rightarrow> float list \<Rightarrow> int \<Rightarrow> float
     \<Rightarrow> int \<times> volume option" where
  "create_soundvolume_model g badval ref hc sc dc sg shear =
     (let vals = sounding_gates (g hc sc dc sg shear) ref
      in if uncovered vals then (0, None)
         else (1, Some (ref\<lparr>sweeps :=
                             map (map (map (\<lambda>x. case x of None \<Rightarrow> badval | Some y \<Rightarrow> y)))
                               vals\<rparr>)))"

subsection \<open>Preparing the output\<close>

text \<open>
  \<^verbatim>\<open>np.where(c, x, y)\<close> on arrays of one shape; it works on the data buffers, so
  the mask of a masked \<^verbatim>\<open>x\<close> plays no part and the result is an \<^verbatim>\<open>ndarray\<close>.
  \<^verbatim>\<open>np.ma.masked_equal(d, v)\<close> gives a masked array with the data \<^verbatim>\<open>d\<close>, masked
  at the gates that compare equal to \<^verbatim>\<open>v\<close>, with fill value \<^verbatim>\<open>v\<close>.
  \<^verbatim>\<open>np.ma.getmaskarray\<close> reads the mask of an array.
\<close>

definition np_where ::
  "bool list list \<Rightarrow> float list list \<Rightarrow> float list list \<Rightarrow> error + float list list" where
  "np_where c x y =
     (if same_shape c x \<and> same_shape c y
      then Inr (map2 (\<lambda>cr (xr, yr). map2 (\<lambda>b (u, v). if b then u else v) cr (zip xr yr))
                  c (zip x y))
      else Inl (ValueError ''operands could not be broadcast together''))"

definition masked_equal :: "float list list \<Rightarrow> float \<Rightarrow> float list list \<times> bool list list \<times> float" where
  "masked_equal d v = (d, map (map (\<lambda>x. float_eq x v)) d, v)"

fun getmaskarray :: "array \<Rightarrow> bool list list" where
  "getmaskarray (NdArray d) = map (map (\<lambda>x. False)) d"
| "getmaskarray (MaskedArray d m fv) = m"

text \<open>The returned field dictionary: the metadata, and the two keys the call sets.\<close>

record field_dict =
  dict_metadata :: "string \<rightharpoonup> string"
  dict_data :: array
  dict_FillValue :: float

text \<open>
  Lines 246 to 259 of \<^verbatim>\<open>dealias_fourdd\<close>:
  \<^verbatim>\<open>is_bad_data = np.logical_or(np.isnan(data), data == rsl_badval)\<close>, then the
  original values (\<^verbatim>\<open>keep_original\<close>) or the fill value at the bad gates, then
  \<^verbatim>\<open>np.ma.masked_equal(data, fill_value)\<close>, and the field dictionary with
  \<^verbatim>\<open>'data'\<close> and \<^verbatim>\<open>'_FillValue'\<close> (which is \<^verbatim>\<open>data.fill_value\<close>).
\<close>

definition is_bad_data :: "float \<Rightarrow> float list list \<Rightarrow> bool list list" where
  "is_bad_data badval d = map (map (\<lambda>x. isnan x \<or> float_eq x badval)) d"

definition prepare_output ::
  "radar \<Rightarrow> string \<Rightarrow> store \<Rightarrow> float \<Rightarrow> bool \<Rightarrow> float \<Rightarrow> (string \<rightharpoonup> string)
     \<Rightarrow> float list list \<Rightarrow> error + field_dict" where
  "prepare_output r field_name s badval keep fill_value meta d =
     (let bad = is_bad_data badval d in
      case (if keep
            then (case field_data r field_name s of
                    Inl e \<Rightarrow> Inl e
                  | Inr a \<Rightarrow> np_where bad (buffer (s ! a)) d)
            else Inr (put_mask d bad fill_value)) of
        Inl e \<Rightarrow> Inl e
      | Inr d' \<Rightarrow>
          (case masked_equal d' fill_value of
             (md, mm, mfv) \<Rightarrow>
               Inr \<lparr>dict_metadata = meta, dict_data = MaskedArray md mm mfv,
                     dict_FillValue = mfv\<rparr>))"

subsection \<open>The call\<close>

text \<open>The result is the field dictionary, or in debug mode what the engine returned.\<close>

datatype result = FieldDict field_dict | DebugResult dealias_output

text \<open>
  The invocations of the collaborators are logged in order, each when it is made, with
  the arguments that matter here. A raised exception ends the call with the log so far.
\<close>

datatype event =
    CallParseGatefilter
  | CallCreateRslVolume string "bool list list option"
  | CallCreateSoundvolume volume "float list" "float list" "float list"
  | CallFourddDealias volume "volume option" "volume option" bool

type_synonym 'a traced = "(error + 'a) \<times> event list"

definition bind_t :: "'a traced \<Rightarrow> ('a \<Rightarrow> 'b traced) \<Rightarrow> 'b traced" where
  "bind_t m f =
     (case m of
        (Inl e, t) \<Rightarrow> (Inl e, t)
      | (Inr x, t) \<Rightarrow> (case f x of (r, t') \<Rightarrow> (r, t @ t')))"

definition call :: "event \<Rightarrow> error + 'a \<Rightarrow> 'a traced" where
  "call ev r = (r, [ev])"

text \<open>The three sounding arrays, when all of them are given (lines 192 to 194).\<close>

definition sounding :: "args \<Rightarrow> (float list \<times> float list \<times> float list) option" where
  "sounding a =
     (case (sounding_heights a, sounding_wind_speeds a, sounding_wind_direction a) of
        (Some h, Some sp, Some d) \<Rightarrow> Some (h, sp, d)
      | _ \<Rightarrow> None)"

text \<open>The field names, with the defaults of the configuration (lines 199 to 204).\<close>

definition vel_field_name :: "env \<Rightarrow> args \<Rightarrow> string" where
  "vel_field_name env a =
     (case vel_field a of None \<Rightarrow> get_field_name env ''velocity'' | Some n \<Rightarrow> n)"

definition corr_vel_field_name :: "env \<Rightarrow> args \<Rightarrow> string" where
  "corr_vel_field_name env a =
     (case corr_vel_field a of None \<Rightarrow> get_field_name env ''corrected_velocity'' | Some n \<Rightarrow> n)"

definition last_vel_field_name :: "env \<Rightarrow> args \<Rightarrow> string" where
  "last_vel_field_name env a =
     (case last_vel_field a of None \<Rightarrow> get_field_name env ''corrected_velocity'' | Some n \<Rightarrow> n)"

text \<open>
  Lines 209 to 221: the gate filter, the velocity volume of the radar with the
  excluded gates, and the velocity volume of the last radar if there is one.
\<close>

definition create_volumes ::
  "env \<Rightarrow> args \<Rightarrow> store \<Rightarrow> (volume \<times> volume option \<times> store) traced" where
  "create_volumes env a s =
     bind_t (call CallParseGatefilter
               (parse_gatefilter env (gatefilter a) (radar a) s (kwargs a)))
       (\<lambda>excluded.
     bind_t (call (CallCreateRslVolume (vel_field_name env a) (Some excluded))
               (case create_rsl_volume (get_fillvalue env) (radar a) (vel_field_name env a) 1
                       (rsl_badval a) (Some excluded) s of
                  (Inl e, s1) \<Rightarrow> Inl e
                | (Inr v, s1) \<Rightarrow> Inr (v, s1)))
       (\<lambda>(vel_volume, s1).
          case last_radar a of
            None \<Rightarrow> (Inr (vel_volume, None, s1), [])
          | Some lr \<Rightarrow>
              call (CallCreateRslVolume (last_vel_field_name env a) None)
                (case create_rsl_volume (get_fillvalue env) lr (last_vel_field_name env a) 1
                        (rsl_badval a) None s1 of
                   (Inl e, s2) \<Rightarrow> Inl e
                 | (Inr v, s2) \<Rightarrow> Inr (vel_volume, Some v, s2))))"

text \<open>
  Lines 223 to 235: the volume of the sounding data, if it is available. The three
  \<^verbatim>\<open>np.ascontiguousarray\<close> conversions keep the values.
\<close>

definition create_sound_volume :: "env \<Rightarrow> args \<Rightarrow> volume \<Rightarrow> volume option traced" where
  "create_sound_volume env a vel_volume =
     (case sounding a of
        None \<Rightarrow> (Inr None, [])
      | Some (hc, sc, dc) \<Rightarrow>
          call (CallCreateSoundvolume vel_volume hc sc dc)
            (case create_soundvolume env vel_volume hc sc dc (sign a) (max_shear a) of
               (success, sound_volume) \<Rightarrow>
                 if success = 0 then Inl (ValueError ''Error when loading sounding data'')
                 else Inr sound_volume))"

text \<open>
  Lines 237 to 259: the engine, and in the normal mode the output field. Unpacking the
  engine's result into \<^verbatim>\<open>flag, data\<close> needs a pair.
\<close>

definition perform_dealiasing ::
  "env \<Rightarrow> args \<Rightarrow> volume \<Rightarrow> volume option \<Rightarrow> volume option \<Rightarrow> store \<Rightarrow> result traced" where
  "perform_dealiasing env a vel_volume last_vel_volume sound_volume s =
     (if debug a
      then bind_t (call (CallFourddDealias vel_volume last_vel_volume sound_volume True)
                     (fourdd_dealias env vel_volume last_vel_volume sound_volume
                        (filt a) True (kwargs a)))
             (\<lambda>out. (Inr (DebugResult out), []))
      else bind_t (call (CallFourddDealias vel_volume last_vel_volume sound_volume False)
                     (fourdd_dealias env vel_volume last_vel_volume sound_volume
                        (filt a) False (kwargs a)))
             (\<lambda>out.
                case out of
                  DebugVolumes flag v l u so \<Rightarrow>
                    (Inl (ValueError ''too many values to unpack''), [])
                | Unfolded flag d \<Rightarrow>
                    (case prepare_output (radar a) (vel_field_name env a) s (rsl_badval a)
                            (keep_original a) (get_fillvalue env)
                            (get_metadata env (corr_vel_field_name env a)) d of
                       Inl e \<Rightarrow> (Inl e, [])
                     | Inr vr_corr \<Rightarrow> (Inr (FieldDict vr_corr), []))))"

text \<open>
  \<^verbatim>\<open>dealias_fourdd\<close>: the two checks of lines 185 to 196, then the three stages.
\<close>

definition dealias_fourdd :: "env \<Rightarrow> args \<Rightarrow> store \<Rightarrow> result traced" where
  "dealias_fourdd env a s =
     (if \<not> FOURDD_AVAILABLE env
      then (Inl (MissingOptionalDependency
                  ''Py-ART must be build with support for TRMM RSL to usethe dealias_fourdd function.''),
            [])
      else
        let sounding_available = (sounding a \<noteq> None) in
        if \<not> sounding_available \<and> last_radar a = None
        then (Inl (ValueError ''sounding data or last_radar must be provided''), [])
        else
          bind_t (create_volumes env a s)
            (\<lambda>(vel_volume, last_vel_volume, s2).
          bind_t (create_sound_volume env a vel_volume)
            (\<lambda>sound_volume.
          perform_dealiasing env a vel_volume last_vel_volume sound_volume s2)))"

section \<open>Notions used in the statements\<close>

text \<open>
  Whether the exclusion mask marks gate \<open>(i, j)\<close>, and whether the mask has the shape
  of the field (one entry per gate).
\<close>

definition excluded_gate :: "bool list list option \<Rightarrow> nat \<Rightarrow> nat \<Rightarrow> bool" where
  "excluded_gate ex i j = (case ex of None \<Rightarrow> False | Some e \<Rightarrow> e ! i ! j)"

definition excluded_fits :: "bool list list option \<Rightarrow> float list list \<Rightarrow> bool" where
  "excluded_fits ex d = (case ex of None \<Rightarrow> True | Some e \<Rightarrow> same_shape d e)"

text \<open>
  The Python class of an exception (for the two errors that have their names from the
  specification, that name), and the class of what a call raised, if it raised.
\<close>

fun exception_class :: "error \<Rightarrow> string" where
  "exception_class (MissingOptionalDependency m) = ''MissingOptionalDependency''"
| "exception_class (ValueError m) = ''ValueError''"
| "exception_class (KeyError m) = ''KeyError''"
| "exception_class (IndexError m) = ''IndexError''"
| "exception_class ShapeMismatch = ''ShapeMismatch''"
| "exception_class ConfigurationError = ''ConfigurationError''"

definition raised_class :: "error + 'a \<Rightarrow> string option" where
  "raised_class r = (case r of Inl e \<Rightarrow> Some (exception_class e) | Inr x \<Rightarrow> None)"

text \<open>
  The field after \<^verbatim>\<open>astype\<close> and \<^verbatim>\<open>fdata[is_bad] = rsl_badval\<close>, and the store once
  \<^verbatim>\<open>np.copy\<close> and \<^verbatim>\<open>astype\<close> have made their two new arrays, the second
  of which holds \<open>d\<close>.
\<close>

definition substituted :: "float \<Rightarrow> float \<Rightarrow> float list list \<Rightarrow> float list list" where
  "substituted fv bv d =
     put_mask (map (map float32) d)
       (map (map (is_bad_gate (float32 fv))) (map (map float32) d)) (float32 bv)"

definition fdata_store :: "store \<Rightarrow> addr \<Rightarrow> float list list \<Rightarrow> store" where
  "fdata_store s a d = s @ [NdArray (buffer (s ! a)), NdArray d]"

section \<open>Example inputs\<close>

text \<open>
  A radar with one sweep of one ray, and one whose index arrays declare three rays; a
  store whose velocity field is a masked array with a masked gate that still holds 5,
  an infinite gate and a gate beyond the range of float32; and a store whose velocity
  field is a plain array.
\<close>

definition radar0 :: radar where
  "radar0 = \<lparr>radar_fields = [''velocity'' \<mapsto> 0], sweep_start_ray_index = [0],
             sweep_end_ray_index = [0]\<rparr>"

definition store0 :: store where
  "store0 = [MaskedArray [[Finite 5, PosInf, Finite (2 ^ 130)]] [[True, False, False]]
              (Finite (- 9999))]"

definition store1 :: store where
  "store1 = [NdArray [[Finite 5, NaN, Finite (- 9999), Finite 7]]]"

definition radar3 :: radar where
  "radar3 = \<lparr>radar_fields = [''velocity'' \<mapsto> 0], sweep_start_ray_index = [0],
             sweep_end_ray_index = [2]\<rparr>"

text \<open>
  An environment in which the compiled interfaces are present, the fill value is -9999,
  field names are their own defaults, the gate filter excludes what a given GateFilter
  says (and nothing otherwise), the sounding synthesis always succeeds and the engine
  returns the velocity volume as it is; the same environment without the compiled
  interfaces, with a sounding synthesis whose profile covers no gate, and with one
  whose profile covers the first gate of every ray only.
\<close>

definition env0 :: env where
  "env0 = \<lparr>FOURDD_AVAILABLE = True, get_fillvalue = Finite (- 9999),
            get_field_name = (\<lambda>n. n), get_metadata = (\<lambda>n. Map.empty),
            parse_gatefilter = (\<lambda>g r s kw. case g of GateFilter m \<Rightarrow> Inr m | _ \<Rightarrow> Inr [[False]]),
            create_soundvolume = (\<lambda>v h sp d sg ms. (1, Some v)),
            unfold_volume = (\<lambda>v l so f kw. (1, v))\<rparr>"

definition env_unbuilt :: env where
  "env_unbuilt = env0\<lparr>FOURDD_AVAILABLE := False\<rparr>"

definition env_nosound :: env where
  "env_nosound =
     env0\<lparr>create_soundvolume :=
            create_soundvolume_model (\<lambda>h sp d sg ms i j k. None) (Finite 131072)\<rparr>"

definition env_partial :: env where
  "env_partial =
     env0\<lparr>create_soundvolume :=
            create_soundvolume_model
              (\<lambda>h sp d sg ms i j k. if k = 0 then Some (Finite 3) else None)
              (Finite 131072)\<rparr>"

text \<open>
  A call with a one-gate radar and a one-level sounding, and its variants: without
  sounding heights, with \<^verbatim>\<open>keep_original\<close>, with an empty profile, with
  \<^verbatim>\<open>ba_mincount=0\<close>, and with a last radar and a gate filter that excludes the
  gate. The stores hold a NaN gate, and the gates 5 and 7 of two radars.
\<close>

definition args0 :: args where
  "args0 = \<lparr>radar = radar0, last_radar = None, sounding_heights = Some [Finite 0],
             sounding_wind_speeds = Some [Finite 1], sounding_wind_direction = Some [Finite 90],
             gatefilter = GateFilterFalse, filt = 1, rsl_badval = Finite 131072,
             keep_original = False, vel_field = None, corr_vel_field = None,
             last_vel_field = None, debug = False, max_shear = Finite (1 / 20), sign = 1,
             kwargs = Map.empty\<rparr>"

definition args_nosource :: args where
  "args_nosource = args0\<lparr>sounding_heights := None\<rparr>"

definition args_keep :: args where
  "args_keep = args0\<lparr>keep_original := True\<rparr>"

definition args_empty :: args where
  "args_empty = args0\<lparr>sounding_heights := Some [], sounding_wind_speeds := Some [],
                       sounding_wind_direction := Some []\<rparr>"

definition args_range :: args where
  "args_range = args0\<lparr>kwargs := [''ba_mincount'' \<mapsto> PyInt 0]\<rparr>"

definition args_partial :: args where
  "args_partial = args0\<lparr>gatefilter := GateFilter [[False, False, False, False]]\<rparr>"

definition radar_last :: radar where
  "radar_last = \<lparr>radar_fields = [''corrected_velocity'' \<mapsto> 1], sweep_start_ray_index = [0],
                 sweep_end_ray_index = [0]\<rparr>"

definition args_last :: args where
  "args_last = args0\<lparr>last_radar := Some radar_last, gatefilter := GateFilter [[True]]\<rparr>"

definition store2 :: store where
  "store2 = [NdArray [[NaN]]]"

definition store3 :: store where
  "store3 = [NdArray [[Finite 5]], NdArray [[Finite 7]]]"

definition vol2 :: volume where
  "vol2 = \<lparr>sweeps = [[[Finite 131072]]], volume_number = 1, geometry = Some ([0], [0])\<rparr>"

definition vol1 :: volume where
  "vol1 = \<lparr>sweeps = [[[Finite 5, Finite 131072, Finite 131072, Finite 7]]],
           volume_number = 1, geometry = Some ([0], [0])\<rparr>"

definition vol_sound :: volume where
  "vol_sound = \<lparr>sweeps = [[[Finite 3, Finite 131072, Finite 131072, Finite 131072]]],
                volume_number = 1, geometry = Some ([0], [0])\<rparr>"

definition vol_last :: volume where
  "vol_last = \<lparr>sweeps = [[[Finite 7]]], volume_number = 1, geometry = Some ([0], [0])\<rparr>"


section \<open>Rounding\<close>

lemma isnan_float32 [simp]: "isnan (float32 x) = isnan x"
  by (cases x) (auto simp: Let_def)

text \<open>
  From here on the rounding of a finite number is unfolded only where it is evaluated.
\<close>

lemmas float32_Finite = float32.simps(1)

declare float32.simps(1) [simp del]

lemma is_bad_gate_float32: "is_bad_gate fv x \<Longrightarrow> is_bad_gate (float32 fv) (float32 x)"
  by (auto simp: is_bad_gate_def float_eq_def)

lemma floor_rat_divide_numeral:
  "\<lfloor>(numeral a :: rat) / numeral b\<rfloor> = numeral a div numeral b"
  by (metis floor_divide_of_int_eq of_int_numeral)

lemma ceiling_rat_divide_numeral:
  "\<lceil>(numeral a :: rat) / numeral b\<rceil> = - (- numeral a div numeral b)"
  by (metis ceiling_def floor_divide_of_int_eq minus_divide_left of_int_minus of_int_numeral)

lemma floor_rat_one_divide_numeral:
  "\<lfloor>(1 :: rat) / numeral b\<rfloor> = 1 div numeral b"
  by (metis floor_divide_of_int_eq of_int_1 of_int_numeral)

lemmas float32_defs = float32_Finite round_float32_def exponent_def round_half_even_def
  pow2_def compute_floorlog Let_def floor_rat_divide_numeral ceiling_rat_divide_numeral
  floor_rat_one_divide_numeral

text \<open>
  The rounding at some values: small integers, the usual fill value and sentinel are
  kept; \<open>2\<^sup>2\<^sup>4 + 1\<close> and \<open>1/10\<close> are not representable; a number next to the fill
  value becomes the fill value; \<open>2\<^sup>1\<^sup>3\<^sup>0\<close> overflows.
\<close>

lemma float32_3 [simp]: "float32 (Finite 3) = Finite 3"
  by (simp add: float32_defs)

lemma float32_5 [simp]: "float32 (Finite 5) = Finite 5"
  by (simp add: float32_defs)

lemma float32_7 [simp]: "float32 (Finite 7) = Finite 7"
  by (simp add: float32_defs)

lemma float32_fill [simp]: "float32 (Finite (- 9999)) = Finite (- 9999)"
  by (simp add: float32_defs)

lemma float32_badval [simp]: "float32 (Finite 131072) = Finite 131072"
  by (simp add: float32_defs)

lemma float32_odd: "float32 (Finite 16777217) = Finite 16777216"
  by (simp add: float32_defs)

lemma float32_tenth: "float32 (Finite (1 / 10)) = Finite (13421773 / 134217728)"
  by (simp add: float32_defs)

lemma float32_near_fill: "float32 (Finite (- 9999 - 1 / 4096)) = Finite (- 9999)"
  by (simp add: float32_defs)

lemma float32_overflow: "float32 (Finite (2 ^ 130)) = PosInf"
  by (simp add: float32_defs)

lemma float32_overflow_numeral [simp]:
  "float32 (Finite 1361129467683753853853498429727072845824) = PosInf"
  using float32_overflow by simp

section \<open>Shapes and boolean index assignment\<close>

lemma same_shape_length: "same_shape d b \<Longrightarrow> length d = length b"
  unfolding same_shape_def by (metis length_map)

lemma same_shape_row: "same_shape d b \<Longrightarrow> i < length d \<Longrightarrow> length (d ! i) = length (b ! i)"
  unfolding same_shape_def
  by (metis length_map nth_map)

lemma put_mask_shape: "same_shape d b \<Longrightarrow> same_shape (put_mask d b v) d"
  unfolding same_shape_def put_mask_def
  by (induction d arbitrary: b) (auto simp: Suc_length_conv)

lemma put_mask_length: "same_shape d b \<Longrightarrow> length (put_mask d b v) = length d"
  unfolding put_mask_def by (simp add: same_shape_length)

lemma put_mask_nth:
  assumes "same_shape d b" "i < length d" "j < length (d ! i)"
  shows "put_mask d b v ! i ! j = (if b ! i ! j then v else d ! i ! j)"
proof -
  have l: "length d = length b" using assms(1) by (rule same_shape_length)
  have r: "length (d ! i) = length (b ! i)" using assms(1,2) by (rule same_shape_row)
  show ?thesis unfolding put_mask_def using assms l r by simp
qed

lemma same_shape_map_map: "same_shape d (map (map f) d)"
  unfolding same_shape_def by (simp add: comp_def)

lemma same_shape_sym: "same_shape a b \<Longrightarrow> same_shape b a"
  unfolding same_shape_def by simp

lemma same_shape_trans: "same_shape a b \<Longrightarrow> same_shape b c \<Longrightarrow> same_shape a c"
  unfolding same_shape_def by simp

lemma same_shape_float32: "same_shape (map (map float32) d) d"
  by (rule same_shape_sym) (rule same_shape_map_map)

lemma substituted_shape: "same_shape (substituted fv bv d) d"
proof -
  have "same_shape (substituted fv bv d) (map (map float32) d)"
    unfolding substituted_def by (rule put_mask_shape) (rule same_shape_map_map)
  from this same_shape_float32 show ?thesis by (rule same_shape_trans)
qed

lemma substituted_nth:
  assumes "i < length d" "j < length (d ! i)"
  shows "substituted fv bv d ! i ! j =
           (if is_bad_gate (float32 fv) (float32 (d ! i ! j)) then float32 bv
            else float32 (d ! i ! j))"
proof -
  let ?c = "map (map float32) d"
  have i: "i < length ?c" and j: "j < length (?c ! i)" using assms by simp_all
  from put_mask_nth [OF same_shape_map_map i j, of "is_bad_gate (float32 fv)" "float32 bv"] assms
  show ?thesis by (simp add: substituted_def)
qed

section \<open>The volume builder\<close>

lemma create_rsl_volume_run:
  assumes "radar_fields r fn = Some a" "a < length s"
  shows "create_rsl_volume fv r fn vn bv ex s =
     (let d1 = substituted fv bv (buffer (s ! a)) in
      case ex of
        None \<Rightarrow> build_volume r vn (Suc (length s)) (fdata_store s a d1)
      | Some e \<Rightarrow>
          if same_shape d1 e
          then build_volume r vn (Suc (length s)) (fdata_store s a (put_mask d1 e (float32 bv)))
          else (Inl (IndexError ''boolean index did not match indexed array''), fdata_store s a d1))"
  using assms
  by (auto simp: create_rsl_volume_def field_data_def np_copy_def astype_float32_def alloc_def
      np_ma_filled_def setitem_bool_def nth_append Let_def substituted_def fdata_store_def
      same_shape_map_map list_update_append split: option.splits)

lemma concat_split_sweeps: "concat (split_sweeps ns xs) = take (sum_list ns) xs"
proof (induction ns arbitrary: xs)
  case Nil
  then show ?case by simp
next
  case (Cons n ns)
  have "take n xs @ take (sum_list ns) (drop n xs) = take (n + sum_list ns) xs"
    by (simp add: take_add)
  with Cons show ?case by simp
qed

lemma sum_list_nat_ge: "sum_list xs \<le> int (sum_list (map nat xs))"
  by (induction xs) auto

lemma create_volume_rays:
  assumes "create_volume d rps vn = Inr v"
  shows "rays v = d"
proof -
  from assms have sum: "sum_list rps = int (length d)" and
    v: "v = \<lparr>sweeps = split_sweeps (map nat rps) d, volume_number = vn, geometry = None\<rparr>"
    by (auto simp: create_volume_def split: if_splits)
  have "int (length d) \<le> int (sum_list (map nat rps))"
    using sum_list_nat_ge [of rps] sum by simp
  then have "length d \<le> sum_list (map nat rps)" by simp
  then show ?thesis by (simp add: v rays_def concat_split_sweeps)
qed

lemma build_volume_rays:
  assumes "build_volume r vn f s = (Inr v, s')"
  shows "rays v = buffer (s ! f)" and "s' = s"
  using assms create_volume_rays
  by (auto simp: build_volume_def label_volume_def rays_def split: sum.splits)

lemma build_volume_store: "snd (build_volume r vn f s) = s"
  by (auto simp: build_volume_def split: sum.splits)

lemma fdata_store_nth [simp]: "fdata_store s a d ! Suc (length s) = NdArray d"
  by (simp add: fdata_store_def nth_append)

lemma create_rsl_volume_rays:
  assumes "radar_fields r fn = Some a" "a < length s"
    and "fst (create_rsl_volume fv r fn vn bv ex s) = Inr v"
  shows "excluded_fits ex (buffer (s ! a))"
    and "rays v = (case ex of None \<Rightarrow> substituted fv bv (buffer (s ! a))
                   | Some e \<Rightarrow> put_mask (substituted fv bv (buffer (s ! a))) e (float32 bv))"
proof -
  let ?d = "buffer (s ! a)"
  let ?d1 = "substituted fv bv ?d"
  have sh: "same_shape ?d1 ?d" by (rule substituted_shape)
  note run = create_rsl_volume_run [OF assms(1,2), of fv vn bv ex]
  show "excluded_fits ex ?d"
  proof (cases ex)
    case None
    then show ?thesis by (simp add: excluded_fits_def)
  next
    case (Some e)
    with run assms(3) have "same_shape ?d1 e"
      by (auto simp: Let_def split: if_splits)
    with sh have "same_shape ?d e"
      using same_shape_sym same_shape_trans by blast
    with Some show ?thesis by (simp add: excluded_fits_def)
  qed
  show "rays v = (case ex of None \<Rightarrow> ?d1 | Some e \<Rightarrow> put_mask ?d1 e (float32 bv))"
  proof (cases ex)
    case None
    with run assms(3) have "fst (build_volume r vn (Suc (length s)) (fdata_store s a ?d1)) = Inr v"
      by (simp add: Let_def)
    then obtain s' where
      "build_volume r vn (Suc (length s)) (fdata_store s a ?d1) = (Inr v, s')"
      by (metis prod.collapse)
    from build_volume_rays(1) [OF this] None show ?thesis by simp
  next
    case (Some e)
    with run assms(3) have e: "same_shape ?d1 e"
      by (auto simp: Let_def split: if_splits)
    with Some run assms(3)
    have "fst (build_volume r vn (Suc (length s))
                 (fdata_store s a (put_mask ?d1 e (float32 bv)))) = Inr v"
      by (simp add: Let_def)
    then obtain s' where
      "build_volume r vn (Suc (length s)) (fdata_store s a (put_mask ?d1 e (float32 bv))) =
         (Inr v, s')"
      by (metis prod.collapse)
    from build_volume_rays(1) [OF this] Some show ?thesis by simp
  qed
qed

lemma create_rsl_volume_store: "\<exists>new. snd (create_rsl_volume fv r fn vn bv ex s) = s @ new"
proof (cases "field_data r fn s")
  case (Inl e)
  then show ?thesis by (simp add: create_rsl_volume_def)
next
  case (Inr a)
  then have f: "radar_fields r fn = Some a" and a: "a < length s"
    by (auto simp: field_data_def split: option.splits if_splits)
  show ?thesis
    unfolding create_rsl_volume_run [OF f a]
    by (auto simp: Let_def build_volume_store fdata_store_def split: option.splits)
qed

lemma eval_create0:
  "create_rsl_volume (Finite (- 9999)) radar0 ''velocity'' 1 (Finite 131072)
     (Some [[False, False, False, True]]) store1 =
   (Inr \<lparr>sweeps = [[[Finite 5, Finite 131072, Finite 131072, Finite 131072]]],
          volume_number = 1, geometry = Some ([0], [0])\<rparr>,
    store1 @ [NdArray [[Finite 5, NaN, Finite (- 9999), Finite 7]],
              NdArray [[Finite 5, Finite 131072, Finite 131072, Finite 131072]]])"
  by (simp add: create_rsl_volume_def field_data_def np_copy_def astype_float32_def alloc_def
      np_ma_filled_def setitem_bool_def build_volume_def rays_per_sweep_def np_binop_def
      astype_int32_def create_volume_def
      label_volume_def radar0_def store1_def same_shape_def put_mask_def is_bad_gate_def
      float_eq_def)

lemma eval_create_inf:
  "fst (create_rsl_volume (Finite (- 9999)) radar0 ''velocity'' 1 (Finite 131072) None store0) =
     Inr \<lparr>sweeps = [[[Finite 5, PosInf, PosInf]]], volume_number = 1,
           geometry = Some ([0], [0])\<rparr>"
  by (simp add: create_rsl_volume_def field_data_def np_copy_def astype_float32_def alloc_def
      np_ma_filled_def setitem_bool_def build_volume_def rays_per_sweep_def np_binop_def
      astype_int32_def create_volume_def
      label_volume_def radar0_def store0_def same_shape_def put_mask_def is_bad_gate_def
      float_eq_def)

text \<open>
  C2, as the code has it. For a field that exists on the radar and an exclusion mask of
  the field's shape, the volume built by \<^verbatim>\<open>_create_rsl_volume\<close> has the shape of
  the field. A gate that is not masked in the field holds \<open>rsl_badval\<close> (as a float32
  number) if its value, converted to float32, equals the fill value or is NaN, or if the
  gate is excluded; this is so in particular if the stored value equals the fill value
  or is NaN, and for an excluded gate also when it holds a real measurement. Otherwise
  it holds its value converted to float32. No gate of the volume, masked or not, is NaN
  unless \<open>rsl_badval\<close> is, and every gate is finite or \<open>rsl_badval\<close> unless its
  value converted to float32 is infinite. What a masked gate holds is not stated.
\<close>

theorem create_rsl_volume_gates:
  assumes "radar_fields r fn = Some a" and "a < length s"
    and "fst (create_rsl_volume fv r fn vn bv ex s) = Inr v"
    and "i < length (buffer (s ! a))" and "j < length (buffer (s ! a) ! i)"
  shows "same_shape (rays v) (buffer (s ! a)) \<and>
         (\<not> getmaskarray (s ! a) ! i ! j \<longrightarrow>
            rays v ! i ! j =
              (if is_bad_gate (float32 fv) (float32 (buffer (s ! a) ! i ! j)) \<or>
                  excluded_gate ex i j
               then float32 bv else float32 (buffer (s ! a) ! i ! j))) \<and>
         (\<not> getmaskarray (s ! a) ! i ! j \<and>
          (is_bad_gate fv (buffer (s ! a) ! i ! j) \<or> excluded_gate ex i j) \<longrightarrow>
            rays v ! i ! j = float32 bv) \<and>
         isnan (rays v ! i ! j) = (isnan bv \<and> rays v ! i ! j = float32 bv) \<and>
         (isfinite (rays v ! i ! j) \<or> rays v ! i ! j = float32 bv \<or>
          float32 (buffer (s ! a) ! i ! j) = PosInf \<or>
          float32 (buffer (s ! a) ! i ! j) = NegInf)"
proof -
  let ?d = "buffer (s ! a)"
  let ?d1 = "substituted fv bv ?d"
  let ?x = "float32 (?d ! i ! j)"
  note fits = create_rsl_volume_rays(1) [OF assms(1,2,3)]
  note rv = create_rsl_volume_rays(2) [OF assms(1,2,3)]
  have sh1: "same_shape ?d1 ?d" by (rule substituted_shape)
  have i1: "i < length ?d1" using sh1 assms(4) by (simp add: same_shape_length)
  have j1: "j < length (?d1 ! i)" using same_shape_row [OF sh1 i1] assms(5) by simp
  have shape: "same_shape (rays v) ?d"
  proof (cases ex)
    case None
    with rv sh1 show ?thesis by simp
  next
    case (Some e)
    with fits have "same_shape ?d e" by (simp add: excluded_fits_def)
    with sh1 have "same_shape ?d1 e" by (rule same_shape_trans)
    then have "same_shape (put_mask ?d1 e (float32 bv)) ?d1" by (rule put_mask_shape)
    from this sh1 have "same_shape (put_mask ?d1 e (float32 bv)) ?d" by (rule same_shape_trans)
    with rv Some show ?thesis by simp
  qed
  have gate: "rays v ! i ! j =
     (if is_bad_gate (float32 fv) ?x \<or> excluded_gate ex i j then float32 bv else ?x)"
  proof (cases ex)
    case None
    with rv substituted_nth [OF assms(4,5), of fv bv] show ?thesis
      by (simp add: excluded_gate_def)
  next
    case (Some e)
    with fits have "same_shape ?d e" by (simp add: excluded_fits_def)
    with sh1 have "same_shape ?d1 e" by (rule same_shape_trans)
    from put_mask_nth [OF this i1 j1, of "float32 bv"] rv Some
      substituted_nth [OF assms(4,5), of fv bv]
    show ?thesis by (simp add: excluded_gate_def)
  qed
  have bad: "rays v ! i ! j = float32 bv"
    if "is_bad_gate fv (?d ! i ! j) \<or> excluded_gate ex i j"
    using that is_bad_gate_float32 [of fv "?d ! i ! j"] by (auto simp: gate)
  have nan: "isnan (rays v ! i ! j) = (isnan bv \<and> rays v ! i ! j = float32 bv)"
  proof (cases "is_bad_gate (float32 fv) ?x \<or> excluded_gate ex i j")
    case True
    then have "rays v ! i ! j = float32 bv" by (simp add: gate)
    then show ?thesis by simp
  next
    case False
    then have y: "rays v ! i ! j = ?x" by (simp add: gate)
    from False have n: "\<not> isnan ?x" by (simp add: is_bad_gate_def)
    have "?x \<noteq> float32 bv" if "isnan bv"
    proof
      assume "?x = float32 bv"
      then have "isnan ?x = isnan (float32 bv)" by simp
      with n that show False by simp
    qed
    with y n show ?thesis by auto
  qed
  have fin: "isfinite (rays v ! i ! j) \<or> rays v ! i ! j = float32 bv \<or>
          ?x = PosInf \<or> ?x = NegInf"
    unfolding gate by (cases ?x) (auto simp: is_bad_gate_def)
  from shape gate bad nan fin show ?thesis by blast
qed

theorem create_rsl_volume_gates_witness:
  "radar_fields radar0 ''velocity'' = Some 0 \<and> 0 < length store1 \<and>
   fst (create_rsl_volume (Finite (- 9999)) radar0 ''velocity'' 1 (Finite 131072)
          (Some [[False, False, False, True]]) store1) =
     Inr \<lparr>sweeps = [[[Finite 5, Finite 131072, Finite 131072, Finite 131072]]],
           volume_number = 1, geometry = Some ([0], [0])\<rparr> \<and>
   (0::nat) < length (buffer (store1 ! 0)) \<and> (3::nat) < length (buffer (store1 ! 0) ! 0) \<and>
   buffer (store1 ! 0) ! 0 ! 3 = Finite 7 \<and>
   getmaskarray (store1 ! 0) ! 0 ! 3 = False \<and>
   excluded_gate (Some [[False, False, False, True]]) 0 3 \<and>
   rays \<lparr>sweeps = [[[Finite 5, Finite 131072, Finite 131072, Finite 131072]]],
         volume_number = 1, geometry = Some ([0], [0])\<rparr> ! 0 ! 3 = Finite 131072"
proof -
  let ?v = "\<lparr>sweeps = [[[Finite 5, Finite 131072, Finite 131072, Finite 131072]]],
           volume_number = 1, geometry = Some ([0], [0])\<rparr>"
  let ?ex = "Some [[False, False, False, True]]"
  have h1: "radar_fields radar0 ''velocity'' = Some 0" by (simp add: radar0_def)
  have h2: "0 < length store1" by (simp add: store1_def)
  have h3: "fst (create_rsl_volume (Finite (- 9999)) radar0 ''velocity'' 1 (Finite 131072)
          ?ex store1) = Inr ?v"
    by (simp add: eval_create0)
  have h4: "(0::nat) < length (buffer (store1 ! 0))" by (simp add: store1_def)
  have h5: "(3::nat) < length (buffer (store1 ! 0) ! 0)" by (simp add: store1_def)
  have g: "buffer (store1 ! 0) ! 0 ! 3 = Finite 7" by (simp add: store1_def)
  have m: "getmaskarray (store1 ! 0) ! 0 ! 3 = False" by (simp add: store1_def)
  have x: "excluded_gate ?ex 0 3" by (simp add: excluded_gate_def)
  from create_rsl_volume_gates [OF h1 h2 h3 h4 h5] m x
  have "rays ?v ! 0 ! 3 = Finite 131072" by simp
  with h1 h2 h3 h4 h5 g m x show ?thesis by blast
qed

text \<open>
  C2 as stated fails. An infinite gate stays infinite, and a finite gate beyond the
  range of float32 (here \<open>2\<^sup>1\<^sup>3\<^sup>0\<close>) becomes infinite: neither is finite, and neither
  is \<open>rsl_badval\<close>. Besides, the masked gate of this field, whose stored value is 5,
  does not become \<open>rsl_badval\<close>: \<^verbatim>\<open>np.copy\<close> has dropped the mask before
  \<^verbatim>\<open>np.ma.filled\<close> runs.
\<close>

theorem create_rsl_volume_masked_inf_counterexample:
  "store0 ! 0 = MaskedArray [[Finite 5, PosInf, Finite (2 ^ 130)]] [[True, False, False]]
                  (Finite (- 9999)) \<and>
   radar_fields radar0 ''velocity'' = Some 0 \<and>
   fst (create_rsl_volume (Finite (- 9999)) radar0 ''velocity'' 1 (Finite 131072) None store0) =
     Inr \<lparr>sweeps = [[[Finite 5, PosInf, PosInf]]], volume_number = 1,
           geometry = Some ([0], [0])\<rparr> \<and>
   rays \<lparr>sweeps = [[[Finite 5, PosInf, PosInf]]], volume_number = 1,
         geometry = Some ([0], [0])\<rparr> ! 0 ! 0 \<noteq> Finite 131072 \<and>
   \<not> isfinite (rays \<lparr>sweeps = [[[Finite 5, PosInf, PosInf]]], volume_number = 1,
                      geometry = Some ([0], [0])\<rparr> ! 0 ! 1) \<and>
   rays \<lparr>sweeps = [[[Finite 5, PosInf, PosInf]]], volume_number = 1,
         geometry = Some ([0], [0])\<rparr> ! 0 ! 1 \<noteq> Finite 131072 \<and>
   \<not> isfinite (rays \<lparr>sweeps = [[[Finite 5, PosInf, PosInf]]], volume_number = 1,
                      geometry = Some ([0], [0])\<rparr> ! 0 ! 2) \<and>
   rays \<lparr>sweeps = [[[Finite 5, PosInf, PosInf]]], volume_number = 1,
         geometry = Some ([0], [0])\<rparr> ! 0 ! 2 \<noteq> Finite 131072"
  by (simp add: eval_create_inf) (simp add: store0_def radar0_def rays_def)

text \<open>
  C7. If the rays per sweep that \<^verbatim>\<open>_create_rsl_volume\<close> computes from the sweep
  index arrays do not sum to the number of rays of the field, the call fails with
  ShapeMismatch and builds no volume (for a field that exists and an exclusion mask of
  the field's shape, which are the inputs the builder's contract admits).
\<close>

theorem create_rsl_volume_shape_mismatch:
  assumes "radar_fields r fn = Some a" and "a < length s"
    and "excluded_fits ex (buffer (s ! a))"
    and "rays_per_sweep r = Inr rps"
    and "sum_list rps \<noteq> int (length (buffer (s ! a)))"
  shows "fst (create_rsl_volume fv r fn vn bv ex s) = Inl ShapeMismatch"
proof -
  let ?d = "buffer (s ! a)"
  let ?d1 = "substituted fv bv ?d"
  have sh1: "same_shape ?d1 ?d" by (rule substituted_shape)
  have build: "fst (build_volume r vn (Suc (length s)) (fdata_store s a d)) = Inl ShapeMismatch"
    if "length d = length ?d" for d
    using that assms(4,5) by (simp add: build_volume_def create_volume_def)
  note run = create_rsl_volume_run [OF assms(1,2), of fv vn bv ex]
  show ?thesis
  proof (cases ex)
    case None
    have "length ?d1 = length ?d" using sh1 by (rule same_shape_length)
    from build [OF this] run None show ?thesis by (simp add: Let_def)
  next
    case (Some e)
    with assms(3) have "same_shape ?d e" by (simp add: excluded_fits_def)
    with sh1 have e: "same_shape ?d1 e" by (rule same_shape_trans)
    then have "length (put_mask ?d1 e (float32 bv)) = length ?d1" by (rule put_mask_length)
    also have "\<dots> = length ?d" using sh1 by (rule same_shape_length)
    finally have "length (put_mask ?d1 e (float32 bv)) = length ?d" .
    from build [OF this] run Some e show ?thesis by (simp add: Let_def)
  qed
qed

theorem create_rsl_volume_shape_mismatch_witness:
  "radar_fields radar3 ''velocity'' = Some 0 \<and> 0 < length store1 \<and>
   excluded_fits None (buffer (store1 ! 0)) \<and>
   rays_per_sweep radar3 = Inr [3] \<and>
   sum_list [3] \<noteq> int (length (buffer (store1 ! 0))) \<and>
   fst (create_rsl_volume (Finite (- 9999)) radar3 ''velocity'' 1 (Finite 131072) None store1) =
     Inl ShapeMismatch"
proof -
  have h1: "radar_fields radar3 ''velocity'' = Some 0" by (simp add: radar3_def)
  have h2: "0 < length store1" by (simp add: store1_def)
  have h3: "excluded_fits None (buffer (store1 ! 0))" by (simp add: excluded_fits_def)
  have h4: "rays_per_sweep radar3 = Inr [3]"
    by (simp add: rays_per_sweep_def radar3_def np_binop_def astype_int32_def)
  have h5: "sum_list [3] \<noteq> int (length (buffer (store1 ! 0)))" by (simp add: store1_def)
  from create_rsl_volume_shape_mismatch [OF h1 h2 h3 h4 h5] h1 h2 h3 h4 h5
  show ?thesis by blast
qed

text \<open>
  C9. \<^verbatim>\<open>_create_rsl_volume\<close> leaves every array that existed before the call as it
  was, the field data of the radar among them: the store after the call, whether the
  call returns or raises, is the store before it followed by the new arrays.
\<close>

theorem create_rsl_volume_source_unchanged:
  "take (length s) (snd (create_rsl_volume fv r fn vn bv ex s)) = s"
proof -
  obtain new where "snd (create_rsl_volume fv r fn vn bv ex s) = s @ new"
    using create_rsl_volume_store by blast
  then show ?thesis by simp
qed

section \<open>The output field\<close>

lemma is_bad_data_shape: "same_shape d (is_bad_data bv d)"
  unfolding is_bad_data_def by (rule same_shape_map_map)

lemma np_where_length:
  assumes "np_where c x y = Inr z"
  shows "same_shape z y"
proof -
  from assms have cx: "same_shape c x" and cy: "same_shape c y"
    and z: "z = map2 (\<lambda>cr (xr, yr). map2 (\<lambda>b (u, v). if b then u else v) cr (zip xr yr)) c (zip x y)"
    by (auto simp: np_where_def split: if_splits)
  have lx: "length c = length x" and ly: "length c = length y"
    using cx cy by (auto dest: same_shape_length)
  have "length (z ! k) = length (y ! k)" if "k < length y" for k
  proof -
    have "length (c ! k) = length (x ! k)" "length (c ! k) = length (y ! k)"
      using same_shape_row [OF cx] same_shape_row [OF cy] that ly by auto
    then show ?thesis using that lx ly by (simp add: z)
  qed
  moreover have "length z = length y" using lx ly by (simp add: z)
  ultimately show ?thesis
    unfolding same_shape_def by (simp add: list_eq_iff_nth_eq)
qed

lemma prepare_output_data:
  assumes "prepare_output r fn s bv keep fv meta d = Inr out"
  shows "\<exists>d'. out = \<lparr>dict_metadata = meta,
      dict_data = MaskedArray d' (map (map (\<lambda>x. float_eq x fv)) d') fv, dict_FillValue = fv\<rparr>
    \<and> same_shape d' d
    \<and> (\<not> keep \<longrightarrow> d' = put_mask d (is_bad_data bv d) fv)
    \<and> (keep \<longrightarrow> (\<exists>a. field_data r fn s = Inr a \<and>
          np_where (is_bad_data bv d) (buffer (s ! a)) d = Inr d'))"
proof (cases keep)
  case False
  with assms have "out = \<lparr>dict_metadata = meta,
      dict_data = MaskedArray (put_mask d (is_bad_data bv d) fv)
        (map (map (\<lambda>x. float_eq x fv)) (put_mask d (is_bad_data bv d) fv)) fv, dict_FillValue = fv\<rparr>"
    by (auto simp: prepare_output_def masked_equal_def Let_def)
  moreover have "same_shape (put_mask d (is_bad_data bv d) fv) d"
    by (rule put_mask_shape) (rule is_bad_data_shape)
  ultimately show ?thesis using False by blast
next
  case True
  with assms obtain a d' where a: "field_data r fn s = Inr a"
    and w: "np_where (is_bad_data bv d) (buffer (s ! a)) d = Inr d'"
    and out: "out = \<lparr>dict_metadata = meta,
      dict_data = MaskedArray d' (map (map (\<lambda>x. float_eq x fv)) d') fv, dict_FillValue = fv\<rparr>"
    by (auto simp: prepare_output_def masked_equal_def Let_def split: sum.splits)
  from np_where_length [OF w] have "same_shape d' d" .
  with a w out show ?thesis using True by blast
qed

text \<open>
  C4. A gate of the raw output is bad exactly when it is NaN or equals \<open>rsl_badval\<close>.
  Without \<^verbatim>\<open>keep_original\<close> every bad gate of the output holds the fill value and
  every other gate its raw value. In the final array, with or without
  \<^verbatim>\<open>keep_original\<close>, a gate is masked exactly when its value equals the fill value
  (in the sense of \<^verbatim>\<open>==\<close>), whether it was just set or came with the raw
  output, and the fill value is the array's fill value and the \<^verbatim>\<open>_FillValue\<close> of
  the field dictionary.
\<close>

theorem prepare_output_bad_gates:
  assumes "prepare_output r fn s bv keep fv meta d = Inr out"
    and "i < length d" and "j < length (d ! i)"
  shows "is_bad_data bv d ! i ! j = (isnan (d ! i ! j) \<or> float_eq (d ! i ! j) bv) \<and>
         (\<not> keep \<longrightarrow>
            buffer (dict_data out) ! i ! j = (if is_bad_data bv d ! i ! j then fv else d ! i ! j)) \<and>
         getmaskarray (dict_data out) ! i ! j = float_eq (buffer (dict_data out) ! i ! j) fv \<and>
         dict_FillValue out = fv \<and>
         (\<exists>md mm. dict_data out = MaskedArray md mm fv \<and> same_shape md d \<and> same_shape mm d)"
proof -
  from assms(1) obtain d' where
    out: "out = \<lparr>dict_metadata = meta,
      dict_data = MaskedArray d' (map (map (\<lambda>x. float_eq x fv)) d') fv, dict_FillValue = fv\<rparr>"
    and sh: "same_shape d' d"
    and nk: "\<not> keep \<Longrightarrow> d' = put_mask d (is_bad_data bv d) fv"
    using prepare_output_data [OF assms(1)] by blast
  have i': "i < length d'" using sh assms(2) by (simp add: same_shape_length)
  have j': "j < length (d' ! i)" using same_shape_row [OF sh i'] assms(3) by simp
  have bad: "is_bad_data bv d ! i ! j = (isnan (d ! i ! j) \<or> float_eq (d ! i ! j) bv)"
    unfolding is_bad_data_def using assms(2,3) by simp
  have set: "buffer (dict_data out) ! i ! j = (if is_bad_data bv d ! i ! j then fv else d ! i ! j)"
    if "\<not> keep"
    using put_mask_nth [OF is_bad_data_shape assms(2,3), of bv fv] nk [OF that] by (simp add: out)
  have mask: "getmaskarray (dict_data out) ! i ! j = float_eq (buffer (dict_data out) ! i ! j) fv"
    using i' j' by (simp add: out)
  have fill: "dict_FillValue out = fv" by (simp add: out)
  have "same_shape (map (map (\<lambda>x. float_eq x fv)) d') d'"
    by (rule same_shape_sym) (rule same_shape_map_map)
  from this sh have "same_shape (map (map (\<lambda>x. float_eq x fv)) d') d" by (rule same_shape_trans)
  with sh have ex: "\<exists>md mm. dict_data out = MaskedArray md mm fv \<and> same_shape md d \<and> same_shape mm d"
    by (simp add: out)
  from bad set mask fill ex show ?thesis by blast
qed

theorem prepare_output_bad_gates_witness:
  "prepare_output radar0 ''velocity'' store2 (Finite 131072) False (Finite (- 9999)) Map.empty
       [[Finite 131072, Finite 3, Finite (- 9999), NaN]] =
     Inr \<lparr>dict_metadata = Map.empty,
          dict_data = MaskedArray [[Finite (- 9999), Finite 3, Finite (- 9999), Finite (- 9999)]]
                        [[True, False, True, True]] (Finite (- 9999)),
          dict_FillValue = Finite (- 9999)\<rparr> \<and>
   (0::nat) < length [[Finite 131072, Finite 3, Finite (- 9999), NaN]] \<and>
   (0::nat) < length ([[Finite 131072, Finite 3, Finite (- 9999), NaN]] ! 0) \<and>
   is_bad_data (Finite 131072) [[Finite 131072, Finite 3, Finite (- 9999), NaN]] ! 0 ! 0 \<and>
   buffer (MaskedArray [[Finite (- 9999), Finite 3, Finite (- 9999), Finite (- 9999)]]
             [[True, False, True, True]] (Finite (- 9999))) ! 0 ! 0 = Finite (- 9999) \<and>
   getmaskarray (MaskedArray [[Finite (- 9999), Finite 3, Finite (- 9999), Finite (- 9999)]]
             [[True, False, True, True]] (Finite (- 9999))) ! 0 ! 0"
proof -
  let ?d = "[[Finite 131072, Finite 3, Finite (- 9999), NaN]]"
  let ?out = "\<lparr>dict_metadata = Map.empty,
          dict_data = MaskedArray [[Finite (- 9999), Finite 3, Finite (- 9999), Finite (- 9999)]]
                        [[True, False, True, True]] (Finite (- 9999)),
          dict_FillValue = Finite (- 9999)\<rparr>"
  have h1: "prepare_output radar0 ''velocity'' store2 (Finite 131072) False (Finite (- 9999))
      Map.empty ?d = Inr ?out"
    by (simp add: prepare_output_def is_bad_data_def put_mask_def masked_equal_def float_eq_def)
  have h2: "(0::nat) < length ?d" by simp
  have h3: "(0::nat) < length (?d ! 0)" by simp
  note inst = prepare_output_bad_gates [OF h1 h2 h3]
  from inst have bad: "is_bad_data (Finite 131072) ?d ! 0 ! 0"
    by (simp add: float_eq_def)
  from inst bad have val: "buffer (dict_data ?out) ! 0 ! 0 = Finite (- 9999)"
    by simp
  from inst val have mask: "getmaskarray (dict_data ?out) ! 0 ! 0"
    by (simp add: float_eq_def)
  from h1 h2 h3 bad val mask show ?thesis by simp
qed

section \<open>The call\<close>

lemma sounding_None:
  "sounding_heights a = None \<or> sounding_wind_speeds a = None \<or> sounding_wind_direction a = None
   \<Longrightarrow> sounding a = None"
  by (auto simp: sounding_def split: option.splits)

lemma sounding_Some:
  "sounding_heights a = Some hc \<Longrightarrow> sounding_wind_speeds a = Some sc \<Longrightarrow>
   sounding_wind_direction a = Some dc \<Longrightarrow> sounding a = Some (hc, sc, dc)"
  by (simp add: sounding_def)

lemma dealias_fourdd_stages:
  assumes "FOURDD_AVAILABLE env" and "sounding a \<noteq> None \<or> last_radar a \<noteq> None"
    and "create_volumes env a s = (Inr (v, lv, s2), t)"
  shows "dealias_fourdd env a s =
     (case create_sound_volume env a v of
        (Inl e, t2) \<Rightarrow> (Inl e, t @ t2)
      | (Inr sv, t2) \<Rightarrow>
          (fst (perform_dealiasing env a v lv sv s2),
           t @ t2 @ snd (perform_dealiasing env a v lv sv s2)))"
  using assms
  by (auto simp: dealias_fourdd_def bind_t_def Let_def split: prod.splits sum.splits)

lemma create_sound_volume_Some:
  assumes "sounding a = Some (hc, sc, dc)"
  shows "create_sound_volume env a v =
     (if fst (create_soundvolume env v hc sc dc (sign a) (max_shear a)) = 0
      then Inl (ValueError ''Error when loading sounding data'')
      else Inr (snd (create_soundvolume env v hc sc dc (sign a) (max_shear a))),
      [CallCreateSoundvolume v hc sc dc])"
  using assms by (simp add: create_sound_volume_def call_def split: prod.splits)

lemma perform_dealiasing_trace:
  "snd (perform_dealiasing env a v lv sv s) = [CallFourddDealias v lv sv (debug a)]"
  by (auto simp: perform_dealiasing_def bind_t_def call_def
      split: sum.splits dealias_output.splits prod.splits)

lemma prepare_output_error:
  "prepare_output r fn s bv keep fv meta d \<noteq> Inl (ValueError ''Error when loading sounding data'')"
  by (auto simp: prepare_output_def Let_def np_where_def field_data_def masked_equal_def
      split: sum.splits option.splits if_splits)

lemma perform_dealiasing_error:
  "fst (perform_dealiasing env a v lv sv s) \<noteq> Inl (ValueError ''Error when loading sounding data'')"
  using prepare_output_error
  by (auto simp: perform_dealiasing_def bind_t_def call_def fourdd_dealias_def
      split: sum.splits dealias_output.splits prod.splits if_splits)

lemma perform_dealiasing_range:
  assumes "\<not> (param_in_range (kwargs a) ''ba_mincount'' 1 8 \<and>
              param_in_range (kwargs a) ''ba_edgecount'' 1 5)"
  shows "perform_dealiasing env a v lv sv s =
           (Inl ConfigurationError, [CallFourddDealias v lv sv (debug a)])"
  using assms
  by (auto simp: perform_dealiasing_def bind_t_def call_def fourdd_dealias_def)

lemma create_volumes_result:
  assumes "create_volumes env a s = (Inr (v, lo, s2), t)"
  shows "\<exists>ex s1. parse_gatefilter env (gatefilter a) (radar a) s (kwargs a) = Inr ex \<and>
     create_rsl_volume (get_fillvalue env) (radar a) (vel_field_name env a) 1 (rsl_badval a)
       (Some ex) s = (Inr v, s1) \<and>
     (case last_radar a of
        None \<Rightarrow> lo = None \<and> s2 = s1 \<and>
          t = [CallParseGatefilter, CallCreateRslVolume (vel_field_name env a) (Some ex)]
      | Some lr \<Rightarrow>
          (\<exists>lv. lo = Some lv \<and>
             create_rsl_volume (get_fillvalue env) lr (last_vel_field_name env a) 1
               (rsl_badval a) None s1 = (Inr lv, s2)) \<and>
          t = [CallParseGatefilter, CallCreateRslVolume (vel_field_name env a) (Some ex),
               CallCreateRslVolume (last_vel_field_name env a) None])"
  using assms
  by (auto simp: create_volumes_def bind_t_def call_def
      split: sum.splits prod.splits option.splits)

lemma create_volumes_trace:
  "CallFourddDealias v lo so dbg \<notin> set (snd (create_volumes env a s))"
  by (auto simp: create_volumes_def bind_t_def call_def
      split: sum.splits prod.splits option.splits)

lemma create_sound_volume_trace:
  "CallFourddDealias v lo so dbg \<notin> set (snd (create_sound_volume env a w))"
  by (auto simp: create_sound_volume_def call_def split: option.splits prod.splits)

lemma dealias_fourdd_engine_call:
  assumes "CallFourddDealias v lo so dbg \<in> set (snd (dealias_fourdd env a s))"
  shows "\<exists>s2 t. create_volumes env a s = (Inr (v, lo, s2), t)"
proof -
  have av: "FOURDD_AVAILABLE env" and src: "sounding a \<noteq> None \<or> last_radar a \<noteq> None"
    using assms by (auto simp: dealias_fourdd_def Let_def split: if_splits)
  obtain r t where cv: "create_volumes env a s = (r, t)" by (cases "create_volumes env a s")
  show ?thesis
  proof (cases r)
    case (Inl e)
    with cv av src have "snd (dealias_fourdd env a s) = t"
      by (auto simp: dealias_fourdd_def bind_t_def Let_def)
    with assms create_volumes_trace [of v lo so dbg env a s] cv show ?thesis by simp
  next
    case (Inr x)
    obtain v' lo' s2 where x: "x = (v', lo', s2)" by (cases x)
    note st = dealias_fourdd_stages [OF av src cv [unfolded Inr x]]
    have nt: "CallFourddDealias v lo so dbg \<notin> set t"
      using create_volumes_trace [of v lo so dbg env a s] cv by simp
    obtain r2 t2 where sv: "create_sound_volume env a v' = (r2, t2)"
      by (cases "create_sound_volume env a v'")
    have nt2: "CallFourddDealias v lo so dbg \<notin> set t2"
      using create_sound_volume_trace [of v lo so dbg env a v'] sv by simp
    from assms st sv nt nt2 have "v = v' \<and> lo = lo'"
      by (auto simp: perform_dealiasing_trace split: sum.splits)
    with cv Inr x show ?thesis by blast
  qed
qed

subsection \<open>Evaluation at the example inputs\<close>

lemmas eval_defs =
  dealias_fourdd_def create_volumes_def create_sound_volume_def perform_dealiasing_def
  fourdd_dealias_def prepare_output_def bind_t_def call_def sounding_def
  vel_field_name_def corr_vel_field_name_def last_vel_field_name_def
  param_in_range_def congruent_def is_bad_data_def masked_equal_def np_where_def
  create_rsl_volume_def field_data_def np_copy_def astype_float32_def alloc_def
  np_ma_filled_def setitem_bool_def build_volume_def rays_per_sweep_def np_binop_def
  astype_int32_def create_volume_def label_volume_def rays_def
  same_shape_def put_mask_def is_bad_gate_def float_eq_def
  env0_def args0_def radar0_def store2_def vol2_def

lemma eval_create2:
  "create_rsl_volume (Finite (- 9999)) radar0 ''velocity'' 1 (Finite 131072) (Some [[False]]) store2
   = (Inr vol2, [NdArray [[NaN]], NdArray [[NaN]], NdArray [[Finite 131072]]])"
  by (simp add: create_rsl_volume_def field_data_def np_copy_def astype_float32_def alloc_def
      np_ma_filled_def setitem_bool_def build_volume_def rays_per_sweep_def np_binop_def
      astype_int32_def create_volume_def vol2_def
      label_volume_def radar0_def store2_def same_shape_def put_mask_def is_bad_gate_def
      float_eq_def)

lemma eval_create_volumes0:
  "create_volumes env0 args0 store2 =
     (Inr (vol2, None, [NdArray [[NaN]], NdArray [[NaN]], NdArray [[Finite 131072]]]),
      [CallParseGatefilter, CallCreateRslVolume ''velocity'' (Some [[False]])])"
  by (simp add: create_volumes_def bind_t_def call_def env0_def args0_def vel_field_name_def
      eval_create2)

lemma eval_create_volumes_range:
  "create_volumes env0 args_range store2 =
     (Inr (vol2, None, [NdArray [[NaN]], NdArray [[NaN]], NdArray [[Finite 131072]]]),
      [CallParseGatefilter, CallCreateRslVolume ''velocity'' (Some [[False]])])"
  by (simp add: create_volumes_def bind_t_def call_def args_range_def env0_def args0_def
      vel_field_name_def eval_create2)

lemma eval_keep:
  "dealias_fourdd env0 args_keep store2 =
     (Inr (FieldDict \<lparr>dict_metadata = Map.empty,
                      dict_data = MaskedArray [[NaN]] [[False]] (Finite (- 9999)),
                      dict_FillValue = Finite (- 9999)\<rparr>),
      [CallParseGatefilter, CallCreateRslVolume ''velocity'' (Some [[False]]),
       CallCreateSoundvolume vol2 [Finite 0] [Finite 1] [Finite 90],
       CallFourddDealias vol2 None (Some vol2) False])"
  by (simp add: eval_defs args_keep_def Let_def)

lemma eval_empty:
  "dealias_fourdd env0 args_empty store2 =
     (Inr (FieldDict \<lparr>dict_metadata = Map.empty,
                      dict_data = MaskedArray [[Finite (- 9999)]] [[True]] (Finite (- 9999)),
                      dict_FillValue = Finite (- 9999)\<rparr>),
      [CallParseGatefilter, CallCreateRslVolume ''velocity'' (Some [[False]]),
       CallCreateSoundvolume vol2 [] [] [],
       CallFourddDealias vol2 None (Some vol2) False])"
  by (simp add: eval_defs args_empty_def Let_def)

lemma eval_range:
  "dealias_fourdd env0 args_range store2 =
     (Inl ConfigurationError,
      [CallParseGatefilter, CallCreateRslVolume ''velocity'' (Some [[False]]),
       CallCreateSoundvolume vol2 [Finite 0] [Finite 1] [Finite 90],
       CallFourddDealias vol2 None (Some vol2) False])"
  by (simp add: eval_defs args_range_def Let_def)

lemma eval_last:
  "snd (dealias_fourdd env0 args_last store3) =
      [CallParseGatefilter, CallCreateRslVolume ''velocity'' (Some [[True]]),
       CallCreateRslVolume ''corrected_velocity'' None,
       CallCreateSoundvolume vol2 [Finite 0] [Finite 1] [Finite 90],
       CallFourddDealias vol2 (Some vol_last) (Some vol2) False]"
  by (simp add: eval_defs args_last_def radar_last_def store3_def vol_last_def Let_def)

subsection \<open>No dealiasing source\<close>

text \<open>
  C1, as the code has it. When one of the three sounding arrays is absent and there is
  no last radar, the call fails at once, before any collaborator is invoked (no gate
  filter, no volume, no sounding volume, no dealiasing): with the ValueError of line 196
  if the compiled interfaces are available, and with MissingOptionalDependency (line
  187) if they are not. The model has no loop around the failure: nothing is retried.
\<close>

theorem dealias_fourdd_no_source:
  assumes "sounding_heights a = None \<or> sounding_wind_speeds a = None \<or>
           sounding_wind_direction a = None"
    and "last_radar a = None"
  shows "dealias_fourdd env a s =
           (Inl (if FOURDD_AVAILABLE env
                 then ValueError ''sounding data or last_radar must be provided''
                 else MissingOptionalDependency
                   ''Py-ART must be build with support for TRMM RSL to usethe dealias_fourdd function.''),
            [])"
  using sounding_None [OF assms(1)] assms(2) by (simp add: dealias_fourdd_def)

theorem dealias_fourdd_no_source_witness:
  "(sounding_heights args_nosource = None \<or> sounding_wind_speeds args_nosource = None \<or>
    sounding_wind_direction args_nosource = None) \<and>
   last_radar args_nosource = None \<and>
   dealias_fourdd env0 args_nosource store2 =
     (Inl (ValueError ''sounding data or last_radar must be provided''), [])"
proof -
  have h1: "sounding_heights args_nosource = None \<or> sounding_wind_speeds args_nosource = None \<or>
    sounding_wind_direction args_nosource = None"
    by (simp add: args_nosource_def)
  have h2: "last_radar args_nosource = None" by (simp add: args_nosource_def args0_def)
  have av: "FOURDD_AVAILABLE env0" by (simp add: env0_def)
  from dealias_fourdd_no_source [OF h1 h2, of env0 store2] av h1 h2 show ?thesis by simp
qed

text \<open>
  C1 as stated fails where the compiled interfaces are missing: the same call then
  fails with MissingOptionalDependency, raised by the guard of line 186 before the
  sounding data is looked at, and not with the error for a missing dealiasing source.
\<close>

theorem dealias_fourdd_unbuilt_counterexample:
  "sounding_heights args_nosource = None \<and> last_radar args_nosource = None \<and>
   fst (dealias_fourdd env_unbuilt args_nosource store2) =
     Inl (MissingOptionalDependency
       ''Py-ART must be build with support for TRMM RSL to usethe dealias_fourdd function.'') \<and>
   fst (dealias_fourdd env_unbuilt args_nosource store2) \<noteq>
     Inl (ValueError ''sounding data or last_radar must be provided'')"
  by (simp add: dealias_fourdd_def env_unbuilt_def env0_def args_nosource_def args0_def)

subsection \<open>Keeping the original values\<close>

text \<open>
  C3 at a failing input. The velocity field has one gate, which is NaN; the volume
  builder turns it into \<open>rsl_badval\<close>, the engine leaves it there, and with
  \<^verbatim>\<open>keep_original\<close> the bad gate takes the original value, which is NaN.
  \<^verbatim>\<open>np.ma.masked_equal\<close> masks the gates equal to the fill value only, so the NaN
  gate of the returned field is not masked. The docstring of \<^verbatim>\<open>keep_original\<close>
  says that NaN values are still masked.
\<close>

theorem dealias_fourdd_keep_original_nan:
  "buffer (store2 ! 0) = [[NaN]] \<and> keep_original args_keep \<and>
   fst (dealias_fourdd env0 args_keep store2) =
     Inr (FieldDict \<lparr>dict_metadata = Map.empty,
                     dict_data = MaskedArray [[NaN]] [[False]] (Finite (- 9999)),
                     dict_FillValue = Finite (- 9999)\<rparr>) \<and>
   prepare_output radar0 ''velocity'' store2 (Finite 131072) True (Finite (- 9999)) Map.empty
       [[Finite 131072]] =
     Inr \<lparr>dict_metadata = Map.empty,
          dict_data = MaskedArray [[NaN]] [[False]] (Finite (- 9999)),
          dict_FillValue = Finite (- 9999)\<rparr> \<and>
   isnan (buffer (MaskedArray [[NaN]] [[False]] (Finite (- 9999))) ! 0 ! 0) \<and>
   \<not> getmaskarray (MaskedArray [[NaN]] [[False]] (Finite (- 9999))) ! 0 ! 0"
  by (simp add: eval_keep)
     (simp add: store2_def args_keep_def args0_def prepare_output_def is_bad_data_def
        field_data_def radar0_def np_where_def same_shape_def masked_equal_def float_eq_def)

subsection \<open>The sounding volume\<close>

text \<open>
  C5, as the code has it. \<^verbatim>\<open>dealias_fourdd\<close> does not look at the wind profile:
  when the three sounding arrays are given and the velocity volumes have been built,
  \<^verbatim>\<open>create_soundvolume\<close> is invoked with exactly these arrays, whatever their
  length and order; and the call ends there with the ValueError of line 233, an
  exception, exactly when \<^verbatim>\<open>create_soundvolume\<close> reports success 0.
\<close>

theorem dealias_fourdd_sounding_invoked:
  assumes "FOURDD_AVAILABLE env"
    and "sounding_heights a = Some hc" and "sounding_wind_speeds a = Some sc"
    and "sounding_wind_direction a = Some dc"
    and "create_volumes env a s = (Inr (v, lv, s2), t)"
  shows "take (Suc (length t)) (snd (dealias_fourdd env a s)) = t @ [CallCreateSoundvolume v hc sc dc] \<and>
         (dealias_fourdd env a s =
            (Inl (ValueError ''Error when loading sounding data''),
             t @ [CallCreateSoundvolume v hc sc dc])) =
         (fst (create_soundvolume env v hc sc dc (sign a) (max_shear a)) = 0)"
proof -
  have so: "sounding a = Some (hc, sc, dc)" using assms(2-4) by (rule sounding_Some)
  then have src: "sounding a \<noteq> None \<or> last_radar a \<noteq> None" by simp
  note st = dealias_fourdd_stages [OF assms(1) src assms(5)]
  note sv = create_sound_volume_Some [OF so, of env v]
  show ?thesis
    unfolding st sv by (simp add: perform_dealiasing_trace)
qed

theorem dealias_fourdd_sounding_invoked_witness:
  "FOURDD_AVAILABLE env0 \<and> sounding_heights args0 = Some [Finite 0] \<and>
   sounding_wind_speeds args0 = Some [Finite 1] \<and>
   sounding_wind_direction args0 = Some [Finite 90] \<and>
   create_volumes env0 args0 store2 =
     (Inr (vol2, None, [NdArray [[NaN]], NdArray [[NaN]], NdArray [[Finite 131072]]]),
      [CallParseGatefilter, CallCreateRslVolume ''velocity'' (Some [[False]])]) \<and>
   take 3 (snd (dealias_fourdd env0 args0 store2)) =
     [CallParseGatefilter, CallCreateRslVolume ''velocity'' (Some [[False]]),
      CallCreateSoundvolume vol2 [Finite 0] [Finite 1] [Finite 90]]"
proof -
  have h1: "FOURDD_AVAILABLE env0" by (simp add: env0_def)
  have h2: "sounding_heights args0 = Some [Finite 0]" by (simp add: args0_def)
  have h3: "sounding_wind_speeds args0 = Some [Finite 1]" by (simp add: args0_def)
  have h4: "sounding_wind_direction args0 = Some [Finite 90]" by (simp add: args0_def)
  note h5 = eval_create_volumes0
  from dealias_fourdd_sounding_invoked [OF h1 h2 h3 h4 h5]
  have "take 3 (snd (dealias_fourdd env0 args0 store2)) =
     [CallParseGatefilter, CallCreateRslVolume ''velocity'' (Some [[False]]),
      CallCreateSoundvolume vol2 [Finite 0] [Finite 1] [Finite 90]]"
    by (simp add: numeral_3_eq_3)
  with h1 h2 h3 h4 h5 show ?thesis by simp
qed

text \<open>
  C5 as stated fails: an empty profile is not rejected before the synthesis routine is
  invoked. It is handed to \<^verbatim>\<open>create_soundvolume\<close>, after the velocity volume has
  been built.
\<close>

theorem dealias_fourdd_empty_profile_counterexample:
  "sounding_heights args_empty = Some [] \<and> sounding_wind_speeds args_empty = Some [] \<and>
   sounding_wind_direction args_empty = Some [] \<and>
   snd (dealias_fourdd env0 args_empty store2) =
     [CallParseGatefilter, CallCreateRslVolume ''velocity'' (Some [[False]]),
      CallCreateSoundvolume vol2 [] [] [],
      CallFourddDealias vol2 None (Some vol2) False] \<and>
   CallCreateSoundvolume vol2 [] [] [] \<in> set (snd (dealias_fourdd env0 args_empty store2))"
  by (simp add: eval_empty) (simp add: args_empty_def)

text \<open>
  C6, as the code has it, with the synthesizer of the specification. When the profile
  covers no gate of the velocity volume, the synthesizer returns success 0 and a None
  volume, and the call fails with the ValueError of line 233, right after the
  synthesizer and without invoking the engine. When the profile covers some gates, the
  synthesizer returns success 1 and a volume in which the gates that are not covered
  hold the sentinel, the call does not fail with that error, and the engine is invoked
  with this volume.
\<close>

theorem dealias_fourdd_sounding_failure:
  assumes "FOURDD_AVAILABLE env"
    and "sounding_heights a = Some hc" and "sounding_wind_speeds a = Some sc"
    and "sounding_wind_direction a = Some dc"
    and "create_volumes env a s = (Inr (v, lv, s2), t)"
    and "create_soundvolume env = create_soundvolume_model g bv"
  shows "if uncovered (sounding_gates (g hc sc dc (sign a) (max_shear a)) v)
         then create_soundvolume env v hc sc dc (sign a) (max_shear a) = (0, None) \<and>
              dealias_fourdd env a s =
                (Inl (ValueError ''Error when loading sounding data''),
                 t @ [CallCreateSoundvolume v hc sc dc])
         else (\<exists>sv. create_soundvolume env v hc sc dc (sign a) (max_shear a) = (1, Some sv) \<and>
                 sweeps sv =
                   map (map (map (\<lambda>x. case x of None \<Rightarrow> bv | Some y \<Rightarrow> y)))
                     (sounding_gates (g hc sc dc (sign a) (max_shear a)) v) \<and>
                 fst (dealias_fourdd env a s) \<noteq>
                   Inl (ValueError ''Error when loading sounding data'') \<and>
                 snd (dealias_fourdd env a s) =
                   t @ [CallCreateSoundvolume v hc sc dc,
                        CallFourddDealias v lv (Some sv) (debug a)])"
proof -
  let ?vals = "sounding_gates (g hc sc dc (sign a) (max_shear a)) v"
  have so: "sounding a = Some (hc, sc, dc)" using assms(2-4) by (rule sounding_Some)
  then have src: "sounding a \<noteq> None \<or> last_radar a \<noteq> None" by simp
  note st = dealias_fourdd_stages [OF assms(1) src assms(5)]
  note csv = create_sound_volume_Some [OF so, of env v]
  show ?thesis
  proof (cases "uncovered ?vals")
    case True
    then have "create_soundvolume env v hc sc dc (sign a) (max_shear a) = (0, None)"
      by (simp add: assms(6) create_soundvolume_model_def)
    with True show ?thesis unfolding st csv by simp
  next
    case False
    let ?sv = "v\<lparr>sweeps := map (map (map (\<lambda>x. case x of None \<Rightarrow> bv | Some y \<Rightarrow> y))) ?vals\<rparr>"
    from False have r: "create_soundvolume env v hc sc dc (sign a) (max_shear a) = (1, Some ?sv)"
      by (simp add: assms(6) create_soundvolume_model_def)
    have "fst (dealias_fourdd env a s) \<noteq> Inl (ValueError ''Error when loading sounding data'')"
      unfolding st csv using r perform_dealiasing_error [of env a v lv "Some ?sv" s2] by simp
    moreover have "snd (dealias_fourdd env a s) =
        t @ [CallCreateSoundvolume v hc sc dc, CallFourddDealias v lv (Some ?sv) (debug a)]"
      unfolding st csv using r by (simp add: perform_dealiasing_trace)
    moreover have "sweeps ?sv = map (map (map (\<lambda>x. case x of None \<Rightarrow> bv | Some y \<Rightarrow> y))) ?vals"
      by simp
    ultimately show ?thesis using False r by auto
  qed
qed

lemma eval_create_partial:
  "create_rsl_volume (Finite (- 9999)) radar0 ''velocity'' 1 (Finite 131072)
     (Some [[False, False, False, False]]) store1 =
   (Inr vol1,
    store1 @ [NdArray [[Finite 5, NaN, Finite (- 9999), Finite 7]],
              NdArray [[Finite 5, Finite 131072, Finite 131072, Finite 7]]])"
  by (simp add: create_rsl_volume_def field_data_def np_copy_def astype_float32_def alloc_def
      np_ma_filled_def setitem_bool_def build_volume_def rays_per_sweep_def np_binop_def
      astype_int32_def create_volume_def vol1_def
      label_volume_def radar0_def store1_def same_shape_def put_mask_def is_bad_gate_def
      float_eq_def)

lemma eval_create_volumes_partial:
  "create_volumes env_partial args_partial store1 =
     (Inr (vol1, None,
           store1 @ [NdArray [[Finite 5, NaN, Finite (- 9999), Finite 7]],
                     NdArray [[Finite 5, Finite 131072, Finite 131072, Finite 7]]]),
      [CallParseGatefilter,
       CallCreateRslVolume ''velocity'' (Some [[False, False, False, False]])])"
  by (simp add: create_volumes_def bind_t_def call_def env_partial_def env0_def
      args_partial_def args0_def vel_field_name_def eval_create_partial)

lemma eval_sounding_gates_partial:
  "sounding_gates (\<lambda>i j k. if k = 0 then Some (Finite 3) else None) vol1 =
     [[[Some (Finite 3), None, None, None]]]"
  by (simp add: sounding_gates_def vol1_def enumerate_eq_zip upt_rec)

theorem dealias_fourdd_sounding_failure_witness:
  "FOURDD_AVAILABLE env_partial \<and> sounding_heights args_partial = Some [Finite 0] \<and>
   sounding_wind_speeds args_partial = Some [Finite 1] \<and>
   sounding_wind_direction args_partial = Some [Finite 90] \<and>
   create_volumes env_partial args_partial store1 =
     (Inr (vol1, None,
           store1 @ [NdArray [[Finite 5, NaN, Finite (- 9999), Finite 7]],
                     NdArray [[Finite 5, Finite 131072, Finite 131072, Finite 7]]]),
      [CallParseGatefilter,
       CallCreateRslVolume ''velocity'' (Some [[False, False, False, False]])]) \<and>
   create_soundvolume env_partial vol1 [Finite 0] [Finite 1] [Finite 90] (sign args_partial)
     (max_shear args_partial) = (1, Some vol_sound) \<and>
   snd (dealias_fourdd env_partial args_partial store1) =
     [CallParseGatefilter,
      CallCreateRslVolume ''velocity'' (Some [[False, False, False, False]]),
      CallCreateSoundvolume vol1 [Finite 0] [Finite 1] [Finite 90],
      CallFourddDealias vol1 None (Some vol_sound) False]"
proof -
  let ?g = "\<lambda>(h :: float list) (sp :: float list) (d :: float list) (sg :: int) (ms :: float)
              (i :: nat) (j :: nat) (k :: nat). if k = 0 then Some (Finite 3) else None"
  have h1: "FOURDD_AVAILABLE env_partial" by (simp add: env_partial_def env0_def)
  have h2: "sounding_heights args_partial = Some [Finite 0]"
    by (simp add: args_partial_def args0_def)
  have h3: "sounding_wind_speeds args_partial = Some [Finite 1]"
    by (simp add: args_partial_def args0_def)
  have h4: "sounding_wind_direction args_partial = Some [Finite 90]"
    by (simp add: args_partial_def args0_def)
  note h5 = eval_create_volumes_partial
  have h6: "create_soundvolume env_partial = create_soundvolume_model ?g (Finite 131072)"
    by (simp add: env_partial_def)
  have sv: "create_soundvolume env_partial vol1 [Finite 0] [Finite 1] [Finite 90]
     (sign args_partial) (max_shear args_partial) = (1, Some vol_sound)"
    by (simp add: h6 create_soundvolume_model_def eval_sounding_gates_partial uncovered_def)
       (simp add: vol1_def vol_sound_def)
  have dbg: "debug args_partial = False" by (simp add: args_partial_def args0_def)
  have cov: "\<not> uncovered (sounding_gates
      (?g [Finite 0] [Finite 1] [Finite 90] (sign args_partial) (max_shear args_partial)) vol1)"
    by (simp add: eval_sounding_gates_partial uncovered_def)
  from dealias_fourdd_sounding_failure [OF h1 h2 h3 h4 h5 h6] cov sv dbg
  have "snd (dealias_fourdd env_partial args_partial store1) =
     [CallParseGatefilter,
      CallCreateRslVolume ''velocity'' (Some [[False, False, False, False]]),
      CallCreateSoundvolume vol1 [Finite 0] [Finite 1] [Finite 90],
      CallFourddDealias vol1 None (Some vol_sound) False]"
    by auto
  with h1 h2 h3 h4 h5 sv show ?thesis by simp
qed

lemma eval_nosound:
  "dealias_fourdd env_nosound args0 store2 =
     (Inl (ValueError ''Error when loading sounding data''),
      [CallParseGatefilter, CallCreateRslVolume ''velocity'' (Some [[False]]),
       CallCreateSoundvolume vol2 [Finite 0] [Finite 1] [Finite 90]])"
  by (simp add: eval_defs env_nosound_def create_soundvolume_model_def sounding_gates_def
      uncovered_def enumerate_eq_zip upt_rec Let_def)

text \<open>
  C6 as stated fails: the failure of the sounding synthesis is not surfaced as an error
  of its own kind. It is a ValueError (line 233), and so is the configuration error for
  a missing dealiasing source (line 196); a caller can tell the two apart by their
  messages only.
\<close>

theorem dealias_fourdd_sounding_error_class_counterexample:
  "create_soundvolume env_nosound vol2 [Finite 0] [Finite 1] [Finite 90] 1 (Finite (1 / 20)) =
     (0, None) \<and>
   fst (dealias_fourdd env_nosound args0 store2) =
     Inl (ValueError ''Error when loading sounding data'') \<and>
   fst (dealias_fourdd env0 args_nosource store2) =
     Inl (ValueError ''sounding data or last_radar must be provided'') \<and>
   raised_class (fst (dealias_fourdd env_nosound args0 store2)) = Some ''ValueError'' \<and>
   raised_class (fst (dealias_fourdd env0 args_nosource store2)) = Some ''ValueError''"
  by (simp add: eval_nosound raised_class_def)
     (simp add: dealias_fourdd_def sounding_def env0_def args_nosource_def args0_def
        env_nosound_def create_soundvolume_model_def sounding_gates_def uncovered_def
        vol2_def enumerate_eq_zip upt_rec)

subsection \<open>Parameters out of range\<close>

text \<open>
  C8, as the code has it. The keyword arguments reach the engine only in the last
  stage. A call with \<^verbatim>\<open>ba_mincount\<close> or \<^verbatim>\<open>ba_edgecount\<close> out of range, in
  which the compiled interfaces are available, a dealiasing source is given and the
  volumes and the sounding volume have been built, fails with the engine's
  ConfigurationError; by then the gate filter has been parsed and the velocity volume
  (and the last and the sounding volume, if any) constructed.
\<close>

theorem dealias_fourdd_parameter_range:
  assumes "FOURDD_AVAILABLE env"
    and "sounding a \<noteq> None \<or> last_radar a \<noteq> None"
    and "parse_gatefilter env (gatefilter a) (radar a) s (kwargs a) = Inr ex"
    and "create_volumes env a s = (Inr (v, lv, s2), t)"
    and "create_sound_volume env a v = (Inr sv, t2)"
    and "\<not> (param_in_range (kwargs a) ''ba_mincount'' 1 8 \<and>
            param_in_range (kwargs a) ''ba_edgecount'' 1 5)"
  shows "dealias_fourdd env a s =
           (Inl ConfigurationError, t @ t2 @ [CallFourddDealias v lv sv (debug a)]) \<and>
         take 2 t = [CallParseGatefilter, CallCreateRslVolume (vel_field_name env a) (Some ex)]"
proof -
  note st = dealias_fourdd_stages [OF assms(1,2,4)]
  have "take 2 t = [CallParseGatefilter, CallCreateRslVolume (vel_field_name env a) (Some ex)]"
    using create_volumes_result [OF assms(4)] assms(3) by (auto split: option.splits)
  then show ?thesis
    unfolding st by (simp add: assms(5) perform_dealiasing_range [OF assms(6)])
qed

theorem dealias_fourdd_parameter_range_witness:
  "FOURDD_AVAILABLE env0 \<and>
   sounding args_range = Some ([Finite 0], [Finite 1], [Finite 90]) \<and>
   parse_gatefilter env0 (gatefilter args_range) (radar args_range) store2 (kwargs args_range) =
     Inr [[False]] \<and>
   create_volumes env0 args_range store2 =
     (Inr (vol2, None, [NdArray [[NaN]], NdArray [[NaN]], NdArray [[Finite 131072]]]),
      [CallParseGatefilter, CallCreateRslVolume ''velocity'' (Some [[False]])]) \<and>
   create_sound_volume env0 args_range vol2 =
     (Inr (Some vol2), [CallCreateSoundvolume vol2 [Finite 0] [Finite 1] [Finite 90]]) \<and>
   kwargs args_range ''ba_mincount'' = Some (PyInt 0) \<and>
   fst (dealias_fourdd env0 args_range store2) = Inl ConfigurationError"
proof -
  have h1: "FOURDD_AVAILABLE env0" by (simp add: env0_def)
  have so: "sounding args_range = Some ([Finite 0], [Finite 1], [Finite 90])"
    by (simp add: sounding_def args_range_def args0_def)
  then have h2: "sounding args_range \<noteq> None \<or> last_radar args_range \<noteq> None"
    by simp
  have h3: "parse_gatefilter env0 (gatefilter args_range) (radar args_range) store2
      (kwargs args_range) = Inr [[False]]"
    by (simp add: env0_def args_range_def args0_def)
  note h4 = eval_create_volumes_range
  have h5: "create_sound_volume env0 args_range vol2 =
     (Inr (Some vol2), [CallCreateSoundvolume vol2 [Finite 0] [Finite 1] [Finite 90]])"
    by (simp add: create_sound_volume_def sounding_def call_def env0_def args_range_def args0_def)
  have kw: "kwargs args_range ''ba_mincount'' = Some (PyInt 0)"
    by (simp add: args_range_def)
  then have h6: "\<not> (param_in_range (kwargs args_range) ''ba_mincount'' 1 8 \<and>
      param_in_range (kwargs args_range) ''ba_edgecount'' 1 5)"
    by (simp add: param_in_range_def)
  from dealias_fourdd_parameter_range [OF h1 h2 h3 h4 h5 h6]
  have "fst (dealias_fourdd env0 args_range store2) = Inl ConfigurationError" by simp
  with h1 so h3 h4 h5 kw show ?thesis by simp
qed

text \<open>
  C8 as stated fails: with \<^verbatim>\<open>ba_mincount=0\<close> the velocity volume and the
  sounding volume are constructed before the call fails.
\<close>

theorem dealias_fourdd_range_counterexample:
  "kwargs args_range ''ba_mincount'' = Some (PyInt 0) \<and>
   dealias_fourdd env0 args_range store2 =
     (Inl ConfigurationError,
      [CallParseGatefilter, CallCreateRslVolume ''velocity'' (Some [[False]]),
       CallCreateSoundvolume vol2 [Finite 0] [Finite 1] [Finite 90],
       CallFourddDealias vol2 None (Some vol2) False]) \<and>
   create_volumes env0 args_range store2 =
     (Inr (vol2, None, [NdArray [[NaN]], NdArray [[NaN]], NdArray [[Finite 131072]]]),
      [CallParseGatefilter, CallCreateRslVolume ''velocity'' (Some [[False]])])"
  by (simp add: eval_range eval_create_volumes_range) (simp add: args_range_def)

subsection \<open>The volume of the last radar\<close>

lemma build_volume_fst:
  "fst (build_volume r vn (Suc (length s)) (fdata_store s a d)) =
   fst (build_volume r vn (Suc (length s')) (fdata_store s' a' d))"
  by (simp add: build_volume_def split: sum.splits)

lemma create_rsl_volume_fst_append:
  assumes "radar_fields r fn = Some b" and "b < length s"
  shows "fst (create_rsl_volume fv r fn vn bv ex (s @ new)) =
         fst (create_rsl_volume fv r fn vn bv ex s)"
proof -
  have b': "b < length (s @ new)" using assms(2) by simp
  have eq: "buffer ((s @ new) ! b) = buffer (s ! b)" using assms(2) by (simp add: nth_append)
  show ?thesis
    unfolding create_rsl_volume_run [OF assms(1) b'] create_rsl_volume_run [OF assms(1,2)] eq
    using build_volume_fst [of r vn "s @ new" b _ s b]
    by (auto simp: Let_def split: option.splits)
qed

text \<open>
  C10. In a call with a last radar that reaches the engine, the volume of the last
  radar was built by \<^verbatim>\<open>_create_rsl_volume\<close> without an exclusion mask: the last
  volume that the engine gets is what \<^verbatim>\<open>_create_rsl_volume\<close> makes of the last
  radar's field, as it was before the call, with \<^verbatim>\<open>excluded=None\<close>. The gate filter
  plays no part in it: a gate that is not masked in that field holds \<open>rsl_badval\<close>
  only if its value, converted to float32, equals the fill value or is NaN, and its
  value converted to float32 otherwise.
\<close>

theorem dealias_fourdd_last_volume:
  assumes "last_radar a = Some lr"
    and "radar_fields lr (last_vel_field_name env a) = Some b" and "b < length s"
    and "CallFourddDealias v lo so dbg \<in> set (snd (dealias_fourdd env a s))"
    and "i < length (buffer (s ! b))" and "j < length (buffer (s ! b) ! i)"
  shows "CallCreateRslVolume (last_vel_field_name env a) None \<in> set (snd (dealias_fourdd env a s)) \<and>
         (\<exists>lv. lo = Some lv \<and>
            fst (create_rsl_volume (get_fillvalue env) lr (last_vel_field_name env a) 1
                   (rsl_badval a) None s) = Inr lv \<and>
            (\<not> getmaskarray (s ! b) ! i ! j \<longrightarrow>
               rays lv ! i ! j =
                 (if is_bad_gate (float32 (get_fillvalue env)) (float32 (buffer (s ! b) ! i ! j))
                  then float32 (rsl_badval a) else float32 (buffer (s ! b) ! i ! j))))"
proof -
  let ?d = "buffer (s ! b)"
  have av: "FOURDD_AVAILABLE env" and src: "sounding a \<noteq> None \<or> last_radar a \<noteq> None"
    using assms(4) by (auto simp: dealias_fourdd_def Let_def split: if_splits)
  from dealias_fourdd_engine_call [OF assms(4)] obtain s2 t where
    cv: "create_volumes env a s = (Inr (v, lo, s2), t)" by blast
  from create_volumes_result [OF cv] assms(1) obtain ex s1 lv where
    v: "create_rsl_volume (get_fillvalue env) (radar a) (vel_field_name env a) 1 (rsl_badval a)
          (Some ex) s = (Inr v, s1)"
    and lo: "lo = Some lv"
    and lv: "create_rsl_volume (get_fillvalue env) lr (last_vel_field_name env a) 1
               (rsl_badval a) None s1 = (Inr lv, s2)"
    and t: "t = [CallParseGatefilter, CallCreateRslVolume (vel_field_name env a) (Some ex),
               CallCreateRslVolume (last_vel_field_name env a) None]"
    by auto
  have ev: "CallCreateRslVolume (last_vel_field_name env a) None \<in> set (snd (dealias_fourdd env a s))"
    unfolding dealias_fourdd_stages [OF av src cv] t by (auto split: prod.splits sum.splits)
  obtain new where "snd (create_rsl_volume (get_fillvalue env) (radar a) (vel_field_name env a) 1
      (rsl_badval a) (Some ex) s) = s @ new"
    using create_rsl_volume_store by blast
  with v have s1: "s1 = s @ new" by simp
  have "fst (create_rsl_volume (get_fillvalue env) lr (last_vel_field_name env a) 1
               (rsl_badval a) None s1) = Inr lv"
    using lv by simp
  then have orig: "fst (create_rsl_volume (get_fillvalue env) lr (last_vel_field_name env a) 1
               (rsl_badval a) None s) = Inr lv"
    unfolding s1 create_rsl_volume_fst_append [OF assms(2,3)] .
  from create_rsl_volume_rays(2) [OF assms(2,3) orig]
  have "rays lv = substituted (get_fillvalue env) (rsl_badval a) ?d"
    by simp
  with substituted_nth [OF assms(5,6), of "get_fillvalue env" "rsl_badval a"] lo ev orig
  show ?thesis by simp
qed

theorem dealias_fourdd_last_volume_witness:
  "last_radar args_last = Some radar_last \<and> gatefilter args_last = GateFilter [[True]] \<and>
   radar_fields radar_last (last_vel_field_name env0 args_last) = Some 1 \<and>
   1 < length store3 \<and>
   CallFourddDealias vol2 (Some vol_last) (Some vol2) False
     \<in> set (snd (dealias_fourdd env0 args_last store3)) \<and>
   (0::nat) < length (buffer (store3 ! 1)) \<and> (0::nat) < length (buffer (store3 ! 1) ! 0) \<and>
   buffer (store3 ! 1) ! 0 ! 0 = Finite 7 \<and>
   getmaskarray (store3 ! 1) ! 0 ! 0 = False \<and>
   rays vol_last ! 0 ! 0 = Finite 7"
proof -
  have h1: "last_radar args_last = Some radar_last" by (simp add: args_last_def)
  have g: "gatefilter args_last = GateFilter [[True]]" by (simp add: args_last_def)
  have h2: "radar_fields radar_last (last_vel_field_name env0 args_last) = Some 1"
    by (simp add: radar_last_def last_vel_field_name_def env0_def args_last_def args0_def)
  have h3: "1 < length store3" by (simp add: store3_def)
  have h4: "CallFourddDealias vol2 (Some vol_last) (Some vol2) False
     \<in> set (snd (dealias_fourdd env0 args_last store3))"
    by (simp add: eval_last)
  have h5: "(0::nat) < length (buffer (store3 ! 1))" by (simp add: store3_def)
  have h6: "(0::nat) < length (buffer (store3 ! 1) ! 0)" by (simp add: store3_def)
  have x: "buffer (store3 ! 1) ! 0 ! 0 = Finite 7" by (simp add: store3_def)
  have m: "getmaskarray (store3 ! 1) ! 0 ! 0 = False" by (simp add: store3_def)
  from dealias_fourdd_last_volume [OF h1 h2 h3 h4 h5 h6] x m
  have "rays vol_last ! 0 ! 0 = Finite 7"
    by (simp add: is_bad_gate_def float_eq_def env0_def args_last_def args0_def)
  with h1 g h2 h3 h4 h5 h6 x m show ?thesis by simp
qed

end
